theory Spec2Isabelle
  imports Main "HOL-Library.Multiset"
begin

section \<open>Python exceptions as values\<close>

text \<open>
  Every \<^verbatim>\<open>raise\<close> of the driver, and every implicit failure of a dictionary lookup,
  a list index, a tuple unpacking or an \<^verbatim>\<open>assert\<close>, is a value of type \<open>exn\<close>; a
  function that may fail returns \<open>exn + 'a\<close> with \<open>Inl\<close> carrying the exception.
  The string of \<open>ValueError\<close> and \<open>NotImplementedError\<close> is the message of the source;
  the string of \<open>KeyError\<close> is the missing key where the key is a string.
  \<open>UnsupportedArgumentShapeError\<close> is the failure the spec names for the kernel
  builder's argument registration; \<open>BackendError\<close> is any other failure of a library or
  of the kernel builder.
\<close>

datatype exn =
    ValueError string
  | NotImplementedError string
  | KeyError string
  | IndexError
  | AssertionError
  | TypeError
  | UnsupportedArgumentShapeError
  | BackendError string

section \<open>Entity lowering: \<^verbatim>\<open>lower_integral_type\<close> (driver.py, lines 524-564)\<close>

text \<open>
  A FIAT reference cell is given by what the driver reads from it: whether it is a
  \<^verbatim>\<open>TensorProductCell\<close>, its dimension (\<^verbatim>\<open>get_dimension()\<close>: an integer for an
  ordinary cell, the tuple of the factors' dimensions for a product cell) and its topology
  (\<^verbatim>\<open>get_topology()\<close>: a dictionary from a dimension to the sub-entities of that
  dimension, numbered from 0, each with its vertices). The topology of an ordinary cell
  has integers as keys, that of a product cell has tuples of integers: a key of the other
  kind is a key that is not in the dictionary.
\<close>

datatype dimension = IntDim int | TupleDim "int list"

datatype fiat_cell =
    Cell int "int \<rightharpoonup> nat list list"
  | TensorProductCell "int list" "int list \<rightharpoonup> nat list list"

fun is_TensorProductCell :: "fiat_cell \<Rightarrow> bool" where
  "is_TensorProductCell (Cell d topo) = False"
| "is_TensorProductCell (TensorProductCell ds topo) = True"

fun get_dimension :: "fiat_cell \<Rightarrow> dimension" where
  "get_dimension (Cell d topo) = IntDim d"
| "get_dimension (TensorProductCell ds topo) = TupleDim ds"

fun get_topology :: "fiat_cell \<Rightarrow> dimension \<rightharpoonup> nat list list" where
  "get_topology (Cell d topo) (IntDim k) = topo k"
| "get_topology (Cell d topo) (TupleDim ks) = None"
| "get_topology (TensorProductCell ds topo) (IntDim k) = None"
| "get_topology (TensorProductCell ds topo) (TupleDim ks) = topo ks"

definition vert_facet_types :: "string list" where
  "vert_facet_types = [''exterior_facet_vert'', ''interior_facet_vert'']"

definition horiz_facet_types :: "string list" where
  "horiz_facet_types =
     [''exterior_facet_bottom'', ''exterior_facet_top'', ''interior_facet_horiz'']"


text \<open>
  The spec's \<open>UnsupportedIntegralTypeError\<close> is the \<^verbatim>\<open>NotImplementedError\<close> of the
  last branch, with its message.
\<close>

definition UnsupportedIntegralTypeError :: "string \<Rightarrow> exn" where
  "UnsupportedIntegralTypeError integral_type =
     NotImplementedError (''integral type '' @ integral_type @ '' not supported'')"

text \<open>
  Lines 534-555: the dimension of the integration sub-entity. \<^verbatim>\<open>dim - 1\<close> on a tuple
  and \<^verbatim>\<open>basedim, extrdim = dim\<close> on anything but a pair raise in Python; the
  \<^verbatim>\<open>assert extrdim == 1\<close> is the \<open>AssertionError\<close> branch.
\<close>

definition integration_dimension :: "fiat_cell \<Rightarrow> string \<Rightarrow> exn + dimension" where
  "integration_dimension fiat_cell integral_type =
     (let dim = get_dimension fiat_cell in
      if integral_type = ''cell'' then Inr dim
      else if integral_type \<in> set [''exterior_facet'', ''interior_facet''] then
        (if is_TensorProductCell fiat_cell then
           Inl (ValueError (integral_type @
             '' integral cannot be used with a TensorProductCell; need to distinguish between vertical and horizontal contributions.''))
         else (case dim of
                 IntDim d \<Rightarrow> Inr (IntDim (d - 1))
               | TupleDim ds \<Rightarrow> Inl TypeError))
      else if integral_type = ''vertex'' then Inr (IntDim 0)
      else if integral_type \<in> set (vert_facet_types @ horiz_facet_types) then
        (if \<not> is_TensorProductCell fiat_cell then
           Inl (ValueError (integral_type @ '' integral requires a TensorProductCell.''))
         else (case dim of
                 TupleDim [basedim, extrdim] \<Rightarrow>
                   if extrdim \<noteq> 1 then Inl AssertionError
                   else if integral_type \<in> set vert_facet_types then
                     Inr (TupleDim [basedim - 1, 1])
                   else Inr (TupleDim [basedim, 0])
               | TupleDim ds \<Rightarrow> Inl (ValueError ''wrong number of values to unpack (expected 2)'')
               | IntDim d \<Rightarrow> Inl TypeError))
      else Inl (UnsupportedIntegralTypeError integral_type))"

text \<open>
  Lines 557-564: the entity numbers. \<^verbatim>\<open>get_topology()[integration_dim]\<close> is a dictionary
  lookup, a \<open>KeyError\<close> when the cell has no entities of that dimension.
\<close>

definition lower_integral_type :: "fiat_cell \<Rightarrow> string \<Rightarrow> exn + dimension \<times> nat list" where
  "lower_integral_type fiat_cell integral_type =
     (case integration_dimension fiat_cell integral_type of
        Inl e \<Rightarrow> Inl e
      | Inr integration_dim \<Rightarrow>
          if integral_type = ''exterior_facet_bottom'' then Inr (integration_dim, [0])
          else if integral_type = ''exterior_facet_top'' then Inr (integration_dim, [1])
          else (case get_topology fiat_cell integration_dim of
                  None \<Rightarrow> Inl (KeyError ''integration_dim'')
                | Some entities \<Rightarrow> Inr (integration_dim, [0..<length entities])))"

text \<open>
  Two reference cells for the examples: the triangle, and the interval extruded along an
  interval (a product cell of dimension \<open>(1, 1)\<close>).
\<close>

definition triangle :: fiat_cell where
  "triangle = Cell 2
     [0 \<mapsto> [[0], [1], [2]],
      1 \<mapsto> [[1, 2], [0, 2], [0, 1]],
      2 \<mapsto> [[0, 1, 2]]]"


section \<open>Python values and UFL objects the driver reads\<close>

text \<open>
  A value of the parameter dictionary, or a polynomial degree: an integer, a tuple of
  integers (the degree of a tensor-product element), a string, \<^verbatim>\<open>None\<close>, a quadrature
  rule, or any other object (given by the name of its class). A quadrature rule is an
  instance of FInAT's \<^verbatim>\<open>AbstractQuadratureRule\<close>; its points and weights play no part
  in the driver, so a rule is identified by a name.
\<close>

datatype quadrature_rule = QuadratureRule string

datatype pval =
    PInt int
  | PTuple "int list"
  | PStr string
  | PNone
  | PRule quadrature_rule
  | PObject string

type_synonym params = "string \<rightharpoonup> pval"

text \<open>\<^verbatim>\<open>isinstance(quad_rule, AbstractQuadratureRule)\<close>\<close>

fun is_AbstractQuadratureRule :: "pval \<Rightarrow> bool" where
  "is_AbstractQuadratureRule (PRule r) = True"
| "is_AbstractQuadratureRule v = False"

text \<open>\<^verbatim>\<open>"%s" % type(v)\<close>\<close>

fun type_repr :: "pval \<Rightarrow> string" where
  "type_repr (PInt i) = ''<class 'int'>''"
| "type_repr (PTuple t) = ''<class 'tuple'>''"
| "type_repr (PStr s) = ''<class 'str'>''"
| "type_repr PNone = ''<class 'NoneType'>''"
| "type_repr (PRule r) = ''<class 'finat.quadrature.QuadratureRule'>''"
| "type_repr (PObject cls) = ''<class '' @ [CHR 0x27] @ cls @ [CHR 0x27] @ ''>''"

text \<open>
  A UFL element with what the driver and the kernel builder ask of it: its family, its
  degree, and the index shape of the FInAT element made from it. A function space is an
  element on a domain; a domain is a mesh with its UFL cell (by name).
\<close>

record ufl_element =
  family :: string
  degree :: pval

datatype domain = Mesh (ufl_cell: string) (mesh_id: nat)

record function_space =
  ufl_domain :: domain
  ufl_element :: ufl_element

text \<open>
  UFL compares coefficients by count and function space, arguments by number and function
  space: the structural equality of these datatypes.
\<close>

datatype coefficient = Coefficient (coefficient_space: function_space) (coefficient_count: nat)

datatype argument = Argument (argument_space: function_space) (number: nat)

datatype subspace = Subspace (subspace_space: function_space) (subspace_count: nat)

datatype form_function = FormArgument argument | FormCoefficient coefficient

fun ufl_function_space :: "form_function \<Rightarrow> function_space" where
  "ufl_function_space (FormArgument a) = argument_space a"
| "ufl_function_space (FormCoefficient c) = coefficient_space c"

section \<open>The kernel builder's base class (kernel_interface/common.py)\<close>

text \<open>
  The fields \<^verbatim>\<open>KernelBuilderBase.__init__\<close> sets. A kernel argument registered for a
  coefficient is a value of the backend (type \<open>'a\<close>); \<^verbatim>\<open>kernel_arg[k]\<close> is kept as the
  subscripting \<open>GetItem kernel_arg k\<close> of that value.
\<close>

record 'a kernel_builder_base =
  scalar_type :: pval
  interior_facet :: bool
  prepare :: "string list"
  finalise :: "string list"
  domain_coordinate :: "domain \<rightharpoonup> coefficient"
  coefficient_map :: "coefficient \<rightharpoonup> 'a"

definition KernelBuilderBase :: "pval \<Rightarrow> bool \<Rightarrow> 'a kernel_builder_base" where
  "KernelBuilderBase scalar_type_arg interior_facet_arg =
     \<lparr>scalar_type = scalar_type_arg, interior_facet = interior_facet_arg,
      prepare = [], finalise = [],
      domain_coordinate = Map.empty, coefficient_map = Map.empty\<rparr>"

datatype 'a access = KernelArg 'a | GetItem 'a nat

text \<open>
  A restriction is \<^verbatim>\<open>None\<close>, \<^verbatim>\<open>'+'\<close> or \<^verbatim>\<open>'-'\<close>; the lookup
  \<^verbatim>\<open>{'+': 0, '-': 1}[restriction]\<close> raises \<open>KeyError\<close> on anything else.
\<close>

definition restriction_component :: "string option \<Rightarrow> nat option" where
  "restriction_component restriction =
     (case restriction of
        None \<Rightarrow> None
      | Some r \<Rightarrow> [''+'' \<mapsto> 0, ''-'' \<mapsto> 1] r)"

text \<open>\<^verbatim>\<open>KernelBuilderBase.coordinate\<close> (lines 39-40)\<close>

definition coordinate :: "'a kernel_builder_base \<Rightarrow> domain \<Rightarrow> exn + coefficient" where
  "coordinate self mesh =
     (case domain_coordinate self mesh of
        None \<Rightarrow> Inl (KeyError ''domain'')
      | Some c \<Rightarrow> Inr c)"

text \<open>\<^verbatim>\<open>KernelBuilderBase.coefficient\<close> (lines 42-51)\<close>

definition coefficient ::
  "'a kernel_builder_base \<Rightarrow> coefficient \<Rightarrow> string option \<Rightarrow> exn + 'a access" where
  "coefficient self ufl_coefficient restriction =
     (case coefficient_map self ufl_coefficient of
        None \<Rightarrow> Inl (KeyError ''ufl_coefficient'')
      | Some kernel_arg \<Rightarrow>
          if family (ufl_element (coefficient_space ufl_coefficient)) = ''Real'' then
            Inr (KernelArg kernel_arg)
          else if \<not> interior_facet self then Inr (KernelArg kernel_arg)
          else (case restriction_component restriction of
                  None \<Rightarrow> Inl (KeyError ''restriction'')
                | Some k \<Rightarrow> Inr (GetItem kernel_arg k)))"

text \<open>
  Examples: a Lagrange field and a global constant (family \<^verbatim>\<open>Real\<close>) on one mesh, and
  an interior-facet builder with both registered.
\<close>

definition example_mesh :: domain where
  "example_mesh = Mesh ''triangle'' 0"

definition lagrange_space :: function_space where
  "lagrange_space = \<lparr>ufl_domain = example_mesh,
     ufl_element = \<lparr>family = ''Lagrange'', degree = PInt 1\<rparr>\<rparr>"

definition real_space :: function_space where
  "real_space = \<lparr>ufl_domain = example_mesh,
     ufl_element = \<lparr>family = ''Real'', degree = PInt 0\<rparr>\<rparr>"

definition facet_builder :: "string kernel_builder_base" where
  "facet_builder = (KernelBuilderBase (PStr ''double'') True)
     \<lparr>coefficient_map := [Coefficient lagrange_space 0 \<mapsto> ''w_0'',
                          Coefficient real_space 1 \<mapsto> ''w_1'']\<rparr>"

section \<open>Quadrature resolution: \<^verbatim>\<open>set_quad_rule\<close> (driver.py, lines 327-354)\<close>

text \<open>
  The FIAT, FInAT and \<^verbatim>\<open>tsfc.finatinterface\<close> functions the driver calls. Each may
  raise. \<open>create_element\<close> gives the index shape of the FInAT element made from a UFL
  element, which is all the driver uses of it.
\<close>

record fem_library =
  as_fiat_cell :: "string \<Rightarrow> exn + fiat_cell"
  construct_subelement :: "fiat_cell \<Rightarrow> dimension \<Rightarrow> exn + fiat_cell"
  make_quadrature :: "fiat_cell \<Rightarrow> pval \<Rightarrow> exn + quadrature_rule"
  create_element :: "ufl_element \<Rightarrow> exn + nat list"

text \<open>
  \<^verbatim>\<open>(asarray(q) > 10 * asarray(d)).all()\<close>: an integer is a 0-dimensional array, a tuple
  a 1-dimensional one; two tuples broadcast when their lengths agree or one has length 1,
  and numpy raises \<open>ValueError\<close> otherwise; anything that is not a number raises
  \<open>TypeError\<close>.
\<close>

fun tenfold_greater :: "pval \<Rightarrow> pval \<Rightarrow> exn + bool" where
  "tenfold_greater (PInt q) (PInt d) = Inr (q > 10 * d)"
| "tenfold_greater (PInt q) (PTuple ds) = Inr (list_all (\<lambda>d. q > 10 * d) ds)"
| "tenfold_greater (PTuple qs) (PInt d) = Inr (list_all (\<lambda>q. q > 10 * d) qs)"
| "tenfold_greater (PTuple qs) (PTuple ds) =
     (if length qs = length ds then Inr (list_all2 (\<lambda>q d. q > 10 * d) qs ds)
      else if length qs = 1 then Inr (list_all (\<lambda>d. hd qs > 10 * d) ds)
      else if length ds = 1 then Inr (list_all (\<lambda>q. q > 10 * hd ds) qs)
      else Inl (ValueError ''operands could not be broadcast together''))"
| "tenfold_greater q d = Inl TypeError"

text \<open>
  \<^verbatim>\<open>all(... for degree in function_degrees)\<close>: stops at the first \<^verbatim>\<open>False\<close>, and an
  exception of one comparison ends it.
\<close>

fun all_tenfold_greater :: "pval \<Rightarrow> pval list \<Rightarrow> exn + bool" where
  "all_tenfold_greater q [] = Inr True"
| "all_tenfold_greater q (d # ds) =
     (case tenfold_greater q d of
        Inl e \<Rightarrow> Inl e
      | Inr b \<Rightarrow> if b then all_tenfold_greater q ds else Inr False)"

text \<open>
  UFL's \<^verbatim>\<open>max_degree\<close>: \<^verbatim>\<open>reduce(numpy.maximum, map(numpy.asarray, degrees))\<close>, with the
  same broadcasting; \<^verbatim>\<open>reduce\<close> of an empty sequence raises \<open>TypeError\<close>.
\<close>

fun np_maximum :: "pval \<Rightarrow> pval \<Rightarrow> exn + pval" where
  "np_maximum (PInt a) (PInt b) = Inr (PInt (max a b))"
| "np_maximum (PInt a) (PTuple bs) = Inr (PTuple (map (max a) bs))"
| "np_maximum (PTuple as) (PInt b) = Inr (PTuple (map (\<lambda>a. max a b) as))"
| "np_maximum (PTuple as) (PTuple bs) =
     (if length as = length bs then Inr (PTuple (map2 max as bs))
      else if length as = 1 then Inr (PTuple (map (max (hd as)) bs))
      else if length bs = 1 then Inr (PTuple (map (\<lambda>a. max a (hd bs)) as))
      else Inl (ValueError ''operands could not be broadcast together''))"
| "np_maximum a b = Inl TypeError"

fun reduce_maximum :: "pval \<Rightarrow> pval list \<Rightarrow> exn + pval" where
  "reduce_maximum acc [] = Inr acc"
| "reduce_maximum acc (d # ds) =
     (case np_maximum acc d of
        Inl e \<Rightarrow> Inl e
      | Inr acc' \<Rightarrow> reduce_maximum acc' ds)"

fun is_numeric :: "pval \<Rightarrow> bool" where
  "is_numeric (PInt i) = True"
| "is_numeric (PTuple t) = True"
| "is_numeric v = False"

definition max_degree :: "pval list \<Rightarrow> exn + pval" where
  "max_degree degrees =
     (case degrees of
        [] \<Rightarrow> Inl TypeError
      | d # ds \<Rightarrow> if is_numeric d then reduce_maximum d ds else Inl TypeError)"

text \<open>A record of the logger: the level, the format string and its arguments.\<close>

datatype log_record = Warning string "pval list"

definition tenfold_warning :: "pval \<Rightarrow> pval \<Rightarrow> log_record" where
  "tenfold_warning quadrature_degree max_deg =
     Warning ''Estimated quadrature degree %s more than tenfold greater than any argument/coefficient degree (max %s)''
       [quadrature_degree, max_deg]"

text \<open>
  Lines 330-340: the degree. The override \<^verbatim>\<open>params["quadrature_degree"]\<close> when the key
  is there; otherwise \<^verbatim>\<open>params["estimated_polynomial_degree"]\<close> (a \<open>KeyError\<close> when
  that is missing too), with the warning. The result is the degree and what was logged.
\<close>

definition resolve_quadrature_degree ::
  "params \<Rightarrow> form_function list \<Rightarrow> exn + pval \<times> log_record list" where
  "resolve_quadrature_degree params functions =
     (case params ''quadrature_degree'' of
        Some quadrature_degree \<Rightarrow> Inr (quadrature_degree, [])
      | None \<Rightarrow>
          (case params ''estimated_polynomial_degree'' of
             None \<Rightarrow> Inl (KeyError ''estimated_polynomial_degree'')
           | Some quadrature_degree \<Rightarrow>
               (let function_degrees =
                      map (\<lambda>f. degree (ufl_element (ufl_function_space f))) functions
                in case all_tenfold_greater quadrature_degree function_degrees of
                     Inl e \<Rightarrow> Inl e
                   | Inr b \<Rightarrow>
                       if b then
                         (case max_degree function_degrees of
                            Inl e \<Rightarrow> Inl e
                          | Inr m \<Rightarrow> Inr (quadrature_degree, [tenfold_warning quadrature_degree m]))
                       else Inr (quadrature_degree, []))))"

text \<open>
  The spec's \<open>InvalidQuadratureRuleError\<close> is the \<^verbatim>\<open>ValueError\<close> of line 353.
\<close>

definition InvalidQuadratureRuleError :: "pval \<Rightarrow> exn" where
  "InvalidQuadratureRuleError quad_rule =
     ValueError (''Expected to find a QuadratureRule object, not a '' @ type_repr quad_rule)"

text \<open>
  \<^verbatim>\<open>set_quad_rule\<close> changes \<^verbatim>\<open>params\<close> in place; the model returns the dictionary as it
  is on return, with what was logged.
\<close>

definition set_quad_rule ::
  "fem_library \<Rightarrow> params \<Rightarrow> string \<Rightarrow> string \<Rightarrow> form_function list
     \<Rightarrow> exn + params \<times> log_record list" where
  "set_quad_rule lib params cell integral_type functions =
     (case resolve_quadrature_degree params functions of
        Inl e \<Rightarrow> Inl e
      | Inr (quadrature_degree, records) \<Rightarrow>
          (let params1 = (if params ''quadrature_rule'' = Some (PStr ''default'')
                          then params(''quadrature_rule'' := None) else params)
           in case (case params1 ''quadrature_rule'' of
                      Some quad_rule \<Rightarrow> Inr (quad_rule, params1)
                    | None \<Rightarrow>
                        (case as_fiat_cell lib cell of
                           Inl e \<Rightarrow> Inl e
                         | Inr fiat_cell \<Rightarrow>
                        (case lower_integral_type fiat_cell integral_type of
                           Inl e \<Rightarrow> Inl e
                         | Inr (integration_dim, entity_ids) \<Rightarrow>
                        (case construct_subelement lib fiat_cell integration_dim of
                           Inl e \<Rightarrow> Inl e
                         | Inr integration_cell \<Rightarrow>
                        (case make_quadrature lib integration_cell quadrature_degree of
                           Inl e \<Rightarrow> Inl e
                         | Inr rule \<Rightarrow>
                             Inr (PRule rule, params1(''quadrature_rule'' \<mapsto> PRule rule))))))) of
                Inl e \<Rightarrow> Inl e
              | Inr (quad_rule, params2) \<Rightarrow>
                  if \<not> is_AbstractQuadratureRule quad_rule
                  then Inl (InvalidQuadratureRuleError quad_rule)
                  else Inr (params2, records)))"

text \<open>The two exceptions numpy raises in the comparisons above.\<close>

definition numpy_error :: "exn \<Rightarrow> bool" where
  "numpy_error e =
     (e = TypeError \<or> e = ValueError ''operands could not be broadcast together'')"

section \<open>Kernel names (driver.py, lines 238-239)\<close>

text \<open>
  \<^verbatim>\<open>"%s" % n\<close> for an integer: its decimal digits, after a minus sign when it is
  negative.
\<close>

definition digit_char :: "nat \<Rightarrow> char" where
  "digit_char d = ''0123456789'' ! d"

function string_of_nat :: "nat \<Rightarrow> string" where
  "string_of_nat n =
     (if n < 10 then [digit_char n] else string_of_nat (n div 10) @ [digit_char (n mod 10)])"
  by pat_completeness auto
termination
  by (relation "measure id") auto

declare string_of_nat.simps [simp del]

definition string_of_int :: "int \<Rightarrow> string" where
  "string_of_int i =
     (if i < 0 then CHR ''-'' # string_of_nat (nat (- i)) else string_of_nat (nat i))"



text \<open>
  A subdomain id is an integer or one of UFL's strings (\<^verbatim>\<open>otherwise\<close>,
  \<^verbatim>\<open>everywhere\<close>).
\<close>

datatype subdomain_id = IntId int | StrId string

fun str_subdomain_id :: "subdomain_id \<Rightarrow> string" where
  "str_subdomain_id (IntId i) = string_of_int i"
| "str_subdomain_id (StrId s) = s"

text \<open>\<^verbatim>\<open>s.replace("-", "_")\<close>\<close>

definition replace_minus :: "string \<Rightarrow> string" where
  "replace_minus s = map (\<lambda>c. if c = CHR ''-'' then CHR ''_'' else c) s"

definition kernel_name :: "string \<Rightarrow> string \<Rightarrow> subdomain_id \<Rightarrow> string" where
  "kernel_name prefix integral_type subdomain =
     replace_minus (prefix @ ''_'' @ integral_type @ ''_integral_'' @ str_subdomain_id subdomain)"




section \<open>An example library\<close>

text \<open>
  A library that knows the triangle: Lagrange elements of degree 1 and 2 with 3 and 6
  basis functions, the element of global constants with one, sub-cells without topology,
  and a quadrature rule for each non-negative integer degree, named after it.
\<close>

definition example_library :: fem_library where
  "example_library =
     \<lparr>as_fiat_cell = (\<lambda>cell. if cell = ''triangle'' then Inr triangle
                             else Inl (BackendError ''unsupported cell'')),
      construct_subelement = (\<lambda>c d. case d of
                                 IntDim k \<Rightarrow> Inr (Cell k Map.empty)
                               | TupleDim ks \<Rightarrow> Inl (BackendError ''no such subelement'')),
      make_quadrature = (\<lambda>c d. case d of
                            PInt n \<Rightarrow> if 0 \<le> n then Inr (QuadratureRule (''degree '' @ string_of_int n))
                                      else Inl (BackendError ''negative degree'')
                          | _ \<Rightarrow> Inl (BackendError ''degree is not an integer'')),
      create_element = (\<lambda>e. if family e = ''Lagrange'' \<and> degree e = PInt 1 then Inr [3]
                            else if family e = ''Lagrange'' \<and> degree e = PInt 2 then Inr [6]
                            else if family e = ''Real'' then Inr [1]
                            else Inl (BackendError ''unsupported element''))\<rparr>"

definition lagrange2_space :: function_space where
  "lagrange2_space = \<lparr>ufl_domain = example_mesh,
     ufl_element = \<lparr>family = ''Lagrange'', degree = PInt 2\<rparr>\<rparr>"

text \<open>Parameter dictionaries and the functions of an integral, for the examples.\<close>

definition lagrange_functions :: "form_function list" where
  "lagrange_functions =
     [FormArgument (Argument lagrange_space 0), FormCoefficient (Coefficient lagrange_space 0)]"




definition params_rule :: "pval \<Rightarrow> params" where
  "params_rule v = [''quadrature_degree'' \<mapsto> PInt 4, ''quadrature_rule'' \<mapsto> v]"

section \<open>UFL forms and form data\<close>

text \<open>
  An integrand is a tree over coefficients, subspaces and arguments; \<^verbatim>\<open>ufl.replace\<close> is
  the structural rewrite of its terminals. An integral is its integrand with its metadata.
\<close>

datatype ufl_expr =
    CoefficientTerm coefficient
  | SubspaceTerm subspace
  | ArgumentTerm argument
  | Operator string "ufl_expr list"

fun replace_coefficients :: "(coefficient \<rightharpoonup> coefficient) \<Rightarrow> ufl_expr \<Rightarrow> ufl_expr" where
  "replace_coefficients m (CoefficientTerm c) =
     (case m c of None \<Rightarrow> CoefficientTerm c | Some c' \<Rightarrow> CoefficientTerm c')"
| "replace_coefficients m (SubspaceTerm s) = SubspaceTerm s"
| "replace_coefficients m (ArgumentTerm a) = ArgumentTerm a"
| "replace_coefficients m (Operator f es) = Operator f (map (replace_coefficients m) es)"

fun replace_subspaces :: "(subspace \<rightharpoonup> subspace) \<Rightarrow> ufl_expr \<Rightarrow> ufl_expr" where
  "replace_subspaces m (CoefficientTerm c) = CoefficientTerm c"
| "replace_subspaces m (SubspaceTerm s) =
     (case m s of None \<Rightarrow> SubspaceTerm s | Some s' \<Rightarrow> SubspaceTerm s')"
| "replace_subspaces m (ArgumentTerm a) = ArgumentTerm a"
| "replace_subspaces m (Operator f es) = Operator f (map (replace_subspaces m) es)"

record integral =
  integrand :: ufl_expr
  metadata :: params

text \<open>
  \<^verbatim>\<open>ufl.Form\<close>, \<^verbatim>\<open>ufl.IntegralData\<close> and \<^verbatim>\<open>ufl.FormData\<close>, with the attributes the
  driver reads. \<open>arguments\<close> of a form data is \<^verbatim>\<open>preprocessed_form.arguments()\<close>.
\<close>

record form =
  coefficients :: "coefficient list"
  domain_numbering :: "domain \<rightharpoonup> nat"

record integral_data =
  domain :: domain
  integral_type :: string
  subdomain_id :: subdomain_id
  integrals :: "integral list"
  integral_coefficients :: "coefficient list"
  enabled_subspaces :: "bool list"

record form_data =
  original_form :: form
  arguments :: "argument list"
  reduced_coefficients :: "coefficient list"
  function_replace_map :: "coefficient \<rightharpoonup> coefficient"
  reduced_subspaces :: "subspace list"
  original_subspace_positions :: "nat list"
  subspace_replace_map :: "subspace \<rightharpoonup> subspace"
  integral_data :: "integral_data list"

section \<open>The form-data aggregator: \<^verbatim>\<open>TSFCFormData\<close> and \<^verbatim>\<open>TSFCIntegralData\<close>
  (driver.py, lines 40-169)\<close>

record tsfc_integral_data =
  domain :: domain
  integral_type :: string
  subdomain_id :: subdomain_id
  domain_number :: nat
  integrals :: "integral list"
  integral_coefficients :: "coefficient list"
  coefficients :: "coefficient list"
  coefficient_numbers :: "nat list"
  original_subspaces :: "subspace list"
  subspaces :: "subspace list"
  subspace_numbers :: "nat list"

record tsfc_form_data =
  original_form :: form
  arguments :: "argument list"
  reduced_coefficients :: "coefficient list"
  original_coefficient_positions :: "nat list"
  function_replace_map :: "coefficient \<rightharpoonup> coefficient"
  reduced_subspaces :: "subspace list"
  original_subspace_positions :: "nat list"
  subspace_replace_map :: "subspace \<rightharpoonup> subspace"
  integral_data :: "tsfc_integral_data list"

text \<open>\<^verbatim>\<open>tuple(m[k] for k in ks)\<close>: the first missing key raises \<open>KeyError\<close>.\<close>

fun lookup_all :: "('k \<rightharpoonup> 'v) \<Rightarrow> string \<Rightarrow> 'k list \<Rightarrow> exn + 'v list" where
  "lookup_all m what [] = Inr []"
| "lookup_all m what (k # ks) =
     (case m k of
        None \<Rightarrow> Inl (KeyError what)
      | Some v \<Rightarrow> (case lookup_all m what ks of Inl e \<Rightarrow> Inl e | Inr vs \<Rightarrow> Inr (v # vs)))"

text \<open>\<^verbatim>\<open>xs.index(x)\<close>: the first position of \<open>x\<close>, \<open>ValueError\<close> when it is not there.\<close>

fun index_of :: "'a list \<Rightarrow> 'a \<Rightarrow> nat option" where
  "index_of [] x = None"
| "index_of (y # ys) x = (if y = x then Some 0 else map_option Suc (index_of ys x))"

text \<open>
  Line 159: \<^verbatim>\<open>original_coefficient_positions[reduced_coefficients.index(f)]\<close> for each
  coefficient of the integral.
\<close>

fun coefficient_positions ::
  "nat list \<Rightarrow> coefficient list \<Rightarrow> coefficient list \<Rightarrow> exn + nat list" where
  "coefficient_positions positions reduced [] = Inr []"
| "coefficient_positions positions reduced (f # fs) =
     (case index_of reduced f of
        None \<Rightarrow> Inl (ValueError ''f is not in list'')
      | Some i \<Rightarrow>
          if i < length positions then
            (case coefficient_positions positions reduced fs of
               Inl e \<Rightarrow> Inl e
             | Inr ns \<Rightarrow> Inr (positions ! i # ns))
          else Inl IndexError)"

text \<open>
  \<^verbatim>\<open>TSFCIntegralData.__init__\<close> (lines 140-169). Only the first integral data of the
  group is read. \<open>tsfc_fd\<close> is the \<^verbatim>\<open>TSFCFormData\<close> under construction, its
  \<open>integral_data\<close> not yet set.
\<close>

definition TSFCIntegralData ::
  "integral_data list \<Rightarrow> form_data \<Rightarrow> tsfc_form_data \<Rightarrow> exn + tsfc_integral_data" where
  "TSFCIntegralData integral_data_tuple fd tsfc_fd =
     (case integral_data_tuple of
        [] \<Rightarrow> Inl IndexError
      | intg_data # others \<Rightarrow>
     (case domain_numbering (tsfc_form_data.original_form tsfc_fd) (integral_data.domain intg_data) of
        None \<Rightarrow> Inl (KeyError ''domain'')
      | Some dom_number \<Rightarrow>
     (let new_integrals =
            map (\<lambda>itg. itg\<lparr>integrand :=
                   replace_subspaces (form_data.subspace_replace_map fd)
                     (replace_coefficients (tsfc_form_data.function_replace_map tsfc_fd)
                        (integrand itg))\<rparr>)
              (integral_data.integrals intg_data);
          functions = integral_data.integral_coefficients intg_data
      in
     (case lookup_all (tsfc_form_data.function_replace_map tsfc_fd) ''f'' functions of
        Inl e \<Rightarrow> Inl e
      | Inr coeffs \<Rightarrow>
     (case coefficient_positions (tsfc_form_data.original_coefficient_positions tsfc_fd)
             (tsfc_form_data.reduced_coefficients tsfc_fd) functions of
        Inl e \<Rightarrow> Inl e
      | Inr coeff_numbers \<Rightarrow>
     (let subs = map fst (filter snd
                   (zip (form_data.reduced_subspaces fd) (enabled_subspaces intg_data)))
      in
     (case lookup_all (form_data.subspace_replace_map fd) ''c'' subs of
        Inl e \<Rightarrow> Inl e
      | Inr new_subs \<Rightarrow>
          Inr \<lparr>tsfc_integral_data.domain = integral_data.domain intg_data,
               tsfc_integral_data.integral_type = integral_data.integral_type intg_data,
               tsfc_integral_data.subdomain_id = integral_data.subdomain_id intg_data,
               domain_number = dom_number,
               tsfc_integral_data.integrals = new_integrals,
               tsfc_integral_data.integral_coefficients = functions,
               coefficients = coeffs,
               coefficient_numbers = coeff_numbers,
               original_subspaces = subs,
               subspaces = new_subs,
               subspace_numbers =
                 map fst (filter snd (zip (form_data.original_subspace_positions fd)
                                          (enabled_subspaces intg_data)))\<rparr>)))))))"

text \<open>
  The spec's \<open>InconsistentArgumentsError\<close> is the \<^verbatim>\<open>ValueError\<close> of line 83.
\<close>

definition InconsistentArgumentsError :: exn where
  "InconsistentArgumentsError =
     ValueError (''All '' @ [CHR 0x60] @ ''FormData'' @ [CHR 0x60]
       @ ''s must share the same set of arguments.'')"

text \<open>
  Python iterates a \<^verbatim>\<open>set\<close> in an order fixed by the hashes of its elements and the
  history of the table, not by the order of insertion. The order is a parameter of the
  model: a function from the sequence of insertions to the sequence of iteration, which
  lists every inserted element once.
\<close>

definition set_iteration :: "('a list \<Rightarrow> 'a list) \<Rightarrow> bool" where
  "set_iteration iterate = (\<forall>xs. distinct (iterate xs) \<and> set (iterate xs) = set xs)"

text \<open>
  Lines 84-85: the reduced coefficients of all form data, once each, sorted by count.
  \<^verbatim>\<open>sorted\<close> is stable, as \<open>sort_key\<close> is.
\<close>

definition reduce_coefficients ::
  "(coefficient list \<Rightarrow> coefficient list) \<Rightarrow> form_data list \<Rightarrow> coefficient list" where
  "reduce_coefficients iterate form_data_tuple =
     sort_key coefficient_count
       (iterate (concat (map form_data.reduced_coefficients form_data_tuple)))"

text \<open>
  Lines 93-98: the first form data whose replace map has the coefficient gives the
  replacement.
\<close>

fun first_replacement :: "form_data list \<Rightarrow> coefficient \<Rightarrow> coefficient option" where
  "first_replacement [] func = None"
| "first_replacement (fd # fds) func =
     (case form_data.function_replace_map fd func of
        Some coeff \<Rightarrow> Some coeff
      | None \<Rightarrow> first_replacement fds func)"

text \<open>
  Lines 91-98: the new replace map, filled for \<^verbatim>\<open>i, func in enumerate(reduced_coefficients)\<close>;
  the new coefficient has the function space of the old replacement and count \<open>i\<close>.
\<close>

fun build_function_replace_map ::
  "form_data list \<Rightarrow> (nat \<times> coefficient) list \<Rightarrow> (coefficient \<rightharpoonup> coefficient)
     \<Rightarrow> (coefficient \<rightharpoonup> coefficient)" where
  "build_function_replace_map fds [] m = m"
| "build_function_replace_map fds ((i, func) # rest) m =
     build_function_replace_map fds rest
       (case first_replacement fds func of
          None \<Rightarrow> m
        | Some coeff \<Rightarrow> m(func \<mapsto> Coefficient (coefficient_space coeff) i))"

text \<open>
  \<^verbatim>\<open>d.setdefault(key, []).append(v)\<close> on a dictionary that keeps its keys in the order
  of their first insertion.
\<close>

fun setdefault_append :: "('k \<times> 'v list) list \<Rightarrow> 'k \<Rightarrow> 'v \<Rightarrow> ('k \<times> 'v list) list" where
  "setdefault_append [] k v = [(k, [v])]"
| "setdefault_append ((k', vs) # d) k v =
     (if k' = k then (k', vs @ [v]) # d else (k', vs) # setdefault_append d k v)"

type_synonym integral_key = "domain \<times> string \<times> subdomain_id"

definition integral_key :: "integral_data \<Rightarrow> integral_key" where
  "integral_key intg_data =
     (integral_data.domain intg_data, integral_data.integral_type intg_data,
      integral_data.subdomain_id intg_data)"

text \<open>Lines 109-118: the two dictionaries, filled in one pass over all integral data.\<close>

fun group_integral_data ::
  "(form_data \<times> integral_data) list
     \<Rightarrow> (integral_key \<times> integral_data list) list \<times> (integral_key \<times> form_data list) list
     \<Rightarrow> (integral_key \<times> integral_data list) list \<times> (integral_key \<times> form_data list) list" where
  "group_integral_data [] dicts = dicts"
| "group_integral_data ((fd, intg_data) # rest) (intg_data_dict, form_data_dict) =
     group_integral_data rest
       (setdefault_append intg_data_dict (integral_key intg_data) intg_data,
        setdefault_append form_data_dict (integral_key intg_data) fd)"

text \<open>Lines 120-124: one \<^verbatim>\<open>TSFCIntegralData\<close> per key, in the order of the keys.\<close>

fun build_integral_data ::
  "(integral_key \<times> integral_data list) list \<Rightarrow> (integral_key \<times> form_data list) list
     \<Rightarrow> tsfc_form_data \<Rightarrow> exn + tsfc_integral_data list" where
  "build_integral_data [] form_data_dict self = Inr []"
| "build_integral_data ((key, intg_data_list) # rest) form_data_dict self =
     (case map_of form_data_dict key of
        None \<Rightarrow> Inl (KeyError ''key'')
      | Some [] \<Rightarrow> Inl IndexError
      | Some (fd # fds) \<Rightarrow>
          (case TSFCIntegralData intg_data_list fd self of
             Inl e \<Rightarrow> Inl e
           | Inr tsfc_intg \<Rightarrow>
               (case build_integral_data rest form_data_dict self of
                  Inl e \<Rightarrow> Inl e
                | Inr others \<Rightarrow> Inr (tsfc_intg # others))))"

text \<open>
  \<^verbatim>\<open>TSFCFormData.__init__\<close> (lines 77-125). The set of argument tuples has exactly one
  element when \<open>remdups\<close> of the tuples is a singleton; the unpacking fails on the empty
  tuple of form data as well. \<open>diagonal\<close> is not read.
\<close>

definition TSFCFormData ::
  "(coefficient list \<Rightarrow> coefficient list) \<Rightarrow> form_data list \<Rightarrow> form \<Rightarrow> bool
     \<Rightarrow> exn + tsfc_form_data" where
  "TSFCFormData iterate form_data_tuple orig_form diagonal =
     (case remdups (map form_data.arguments form_data_tuple) of
        [args] \<Rightarrow>
          (case form_data_tuple of
             [] \<Rightarrow> Inl IndexError
           | fd0 # fds \<Rightarrow>
          (let reduced = reduce_coefficients iterate form_data_tuple;
               self = \<lparr>tsfc_form_data.original_form = orig_form,
                       tsfc_form_data.arguments = args,
                       tsfc_form_data.reduced_coefficients = reduced,
                       original_coefficient_positions =
                         map fst (filter (\<lambda>(i, f). f \<in> set reduced)
                                    (enumerate 0 (form.coefficients orig_form))),
                       tsfc_form_data.function_replace_map =
                         build_function_replace_map form_data_tuple (enumerate 0 reduced) Map.empty,
                       tsfc_form_data.reduced_subspaces = form_data.reduced_subspaces fd0,
                       tsfc_form_data.original_subspace_positions =
                         form_data.original_subspace_positions fd0,
                       tsfc_form_data.subspace_replace_map = form_data.subspace_replace_map fd0,
                       tsfc_form_data.integral_data = []\<rparr>;
               dicts = group_integral_data
                         (concat (map (\<lambda>fd. map (Pair fd) (form_data.integral_data fd))
                                    form_data_tuple))
                         ([], [])
           in case build_integral_data (fst dicts) (snd dicts) self of
                Inl e \<Rightarrow> Inl e
              | Inr integral_data_list \<Rightarrow>
                  Inr (self\<lparr>tsfc_form_data.integral_data := integral_data_list\<rparr>)))
      | _ \<Rightarrow> Inl InconsistentArgumentsError)"

section \<open>Example forms\<close>

text \<open>
  A form \<open>f * v * dx + g * v * ds(1)\<close> on the example mesh, split into two form data, one
  per integral. Each form data numbers its own coefficient from 0. A third form data has
  a test function of another space.
\<close>

definition coefficient_f :: coefficient where
  "coefficient_f = Coefficient lagrange_space 5"

definition coefficient_g :: coefficient where
  "coefficient_g = Coefficient lagrange_space 7"

definition test_function :: argument where
  "test_function = Argument lagrange_space 0"

definition trial_function :: argument where
  "trial_function = Argument lagrange2_space 1"

definition example_form :: form where
  "example_form = \<lparr>form.coefficients = [coefficient_f, coefficient_g],
                    domain_numbering = [example_mesh \<mapsto> 0]\<rparr>"

definition cell_integral_data :: integral_data where
  "cell_integral_data =
     \<lparr>integral_data.domain = example_mesh,
      integral_data.integral_type = ''cell'',
      integral_data.subdomain_id = StrId ''otherwise'',
      integral_data.integrals =
        [\<lparr>integrand = Operator ''mul'' [CoefficientTerm coefficient_f, ArgumentTerm test_function],
          metadata = [''estimated_polynomial_degree'' \<mapsto> PInt 2]\<rparr>],
      integral_data.integral_coefficients = [coefficient_f],
      enabled_subspaces = []\<rparr>"

definition facet_integral_data :: integral_data where
  "facet_integral_data =
     \<lparr>integral_data.domain = example_mesh,
      integral_data.integral_type = ''exterior_facet'',
      integral_data.subdomain_id = IntId 1,
      integral_data.integrals =
        [\<lparr>integrand = Operator ''mul'' [CoefficientTerm coefficient_g, ArgumentTerm test_function],
          metadata = [''estimated_polynomial_degree'' \<mapsto> PInt 2]\<rparr>],
      integral_data.integral_coefficients = [coefficient_g],
      enabled_subspaces = []\<rparr>"

definition cell_form_data :: form_data where
  "cell_form_data =
     \<lparr>form_data.original_form = example_form,
      form_data.arguments = [test_function],
      form_data.reduced_coefficients = [coefficient_f],
      form_data.function_replace_map = [coefficient_f \<mapsto> Coefficient lagrange_space 0],
      form_data.reduced_subspaces = [],
      form_data.original_subspace_positions = [],
      form_data.subspace_replace_map = Map.empty,
      form_data.integral_data = [cell_integral_data]\<rparr>"

definition facet_form_data :: form_data where
  "facet_form_data =
     \<lparr>form_data.original_form = example_form,
      form_data.arguments = [test_function],
      form_data.reduced_coefficients = [coefficient_g],
      form_data.function_replace_map = [coefficient_g \<mapsto> Coefficient lagrange_space 0],
      form_data.reduced_subspaces = [],
      form_data.original_subspace_positions = [],
      form_data.subspace_replace_map = Map.empty,
      form_data.integral_data = [facet_integral_data]\<rparr>"

definition bilinear_form_data :: form_data where
  "bilinear_form_data =
     \<lparr>form_data.original_form = example_form,
      form_data.arguments = [test_function, trial_function],
      form_data.reduced_coefficients = [],
      form_data.function_replace_map = Map.empty,
      form_data.reduced_subspaces = [],
      form_data.original_subspace_positions = [],
      form_data.subspace_replace_map = Map.empty,
      form_data.integral_data = []\<rparr>"

section \<open>The kernel configuration builder: \<^verbatim>\<open>create_kernel_config\<close>
  (driver.py, lines 272-324)\<close>

text \<open>
  A GEM index is an object with an extent. Two indices are the same object when they were
  made by the same call of \<^verbatim>\<open>gem.Index\<close>: the model numbers the calls, and the number
  of calls made so far is the state every function that makes indices takes and returns.
\<close>

datatype index = Index (index_id: nat) (extent: "nat option")

text \<open>\<^verbatim>\<open>tuple(gem.Index(extent=e) for e in extents)\<close>\<close>

fun new_indices :: "nat option list \<Rightarrow> nat \<Rightarrow> index list \<times> nat" where
  "new_indices [] n = ([], n)"
| "new_indices (e # es) n =
     (case new_indices es (Suc n) of (rest, n') \<Rightarrow> (Index n e # rest, n'))"

text \<open>
  Lines 274-275: \<^verbatim>\<open>create_element(arg.ufl_element()).get_indices()\<close> for each argument.
  FInAT's \<^verbatim>\<open>get_indices\<close> makes one new index for each entry of the element's index
  shape.
\<close>

fun argument_indices ::
  "fem_library \<Rightarrow> argument list \<Rightarrow> nat \<Rightarrow> exn + index list list \<times> nat" where
  "argument_indices lib [] n = Inr ([], n)"
| "argument_indices lib (arg # args) n =
     (case create_element lib (ufl_element (argument_space arg)) of
        Inl e \<Rightarrow> Inl e
      | Inr shape \<Rightarrow>
          (case new_indices (map Some shape) n of
             (multiindex, n1) \<Rightarrow>
               (case argument_indices lib args n1 of
                  Inl e \<Rightarrow> Inl e
                | Inr (rest, n2) \<Rightarrow> Inr (multiindex # rest, n2))))"

text \<open>
  Line 276: \<^verbatim>\<open>tuple(tuple(gem.Index(extent=a.extent) for a in arg) for arg in
  argument_multiindices)\<close>.
\<close>

fun dummy_indices :: "index list list \<Rightarrow> nat \<Rightarrow> index list list \<times> nat" where
  "dummy_indices [] n = ([], n)"
| "dummy_indices (arg # args) n =
     (case new_indices (map extent arg) n of
        (multiindex, n1) \<Rightarrow>
          (case dummy_indices args n1 of (rest, n2) \<Rightarrow> (multiindex # rest, n2)))"

text \<open>
  The dictionaries \<^verbatim>\<open>fem_config\<close> and \<^verbatim>\<open>kernel_config\<close>. The entry
  \<^verbatim>\<open>interface=builder\<close> of \<^verbatim>\<open>fem_config\<close> is a reference to the builder, which the
  model passes beside the configuration. \<open>'g\<close> is the type of GEM expressions.
\<close>

record fem_config =
  ufl_cell :: string
  integral_type :: string
  integration_dim :: dimension
  entity_ids :: "nat list"
  argument_multiindices :: "index list list"
  argument_multiindices_dummy :: "index list list"
  index_cache :: "(ufl_element \<times> index list) list"
  scalar_type :: pval

record 'g kernel_config =
  name :: string
  integral_type :: string
  subdomain_id :: subdomain_id
  domain_number :: nat
  coefficient_numbers :: "nat list"
  subspace_numbers :: "nat list"
  subspace_parts :: "'g option list"
  fem_config :: fem_config
  quadrature_indices :: "index list"
  arguments :: "argument list"
  mode_irs :: "(string \<times> 'g) list"

text \<open>\<^verbatim>\<open>create_fem_config\<close> (lines 303-324)\<close>

definition create_fem_config ::
  "fem_library \<Rightarrow> domain \<Rightarrow> string \<Rightarrow> index list list \<Rightarrow> index list list \<Rightarrow> pval
     \<Rightarrow> exn + fem_config" where
  "create_fem_config lib mesh itype multiindices multiindices_dummy stype =
     (let cell = domain.ufl_cell mesh in
      case as_fiat_cell lib cell of
        Inl e \<Rightarrow> Inl e
      | Inr fiat_cell \<Rightarrow>
          (case lower_integral_type fiat_cell itype of
             Inl e \<Rightarrow> Inl e
           | Inr (dim, ids) \<Rightarrow>
               Inr \<lparr>fem_config.ufl_cell = cell,
                    fem_config.integral_type = itype,
                    integration_dim = dim,
                    entity_ids = ids,
                    argument_multiindices = multiindices,
                    argument_multiindices_dummy = multiindices_dummy,
                    index_cache = [],
                    fem_config.scalar_type = stype\<rparr>))"

text \<open>
  \<^verbatim>\<open>create_kernel_config\<close> (lines 272-300). \<^verbatim>\<open>a, _ = argument_multiindices\<close> raises
  \<open>ValueError\<close> unless there are exactly two arguments. \<^verbatim>\<open>parameters["scalar_type"]\<close>
  is evaluated before \<^verbatim>\<open>create_fem_config\<close> is entered.
\<close>

definition create_kernel_config ::
  "fem_library \<Rightarrow> string \<Rightarrow> tsfc_form_data \<Rightarrow> tsfc_integral_data \<Rightarrow> params \<Rightarrow> bool \<Rightarrow> nat
     \<Rightarrow> exn + 'g kernel_config \<times> nat" where
  "create_kernel_config lib kname fd intg_data parameters diagonal n =
     (case argument_indices lib (tsfc_form_data.arguments fd) n of
        Inl e \<Rightarrow> Inl e
      | Inr (multiindices, n1) \<Rightarrow>
     (case dummy_indices multiindices n1 of
        (multiindices_dummy, n2) \<Rightarrow>
     (case (if diagonal then
              (case multiindices of
                 [a, b] \<Rightarrow> Inr [a, a]
               | _ \<Rightarrow> Inl (ValueError ''wrong number of values to unpack (expected 2)''))
            else Inr multiindices) of
        Inl e \<Rightarrow> Inl e
      | Inr true_multiindices \<Rightarrow>
     (case parameters ''scalar_type'' of
        None \<Rightarrow> Inl (KeyError ''scalar_type'')
      | Some stype \<Rightarrow>
     (case create_fem_config lib (tsfc_integral_data.domain intg_data)
             (tsfc_integral_data.integral_type intg_data)
             true_multiindices multiindices_dummy stype of
        Inl e \<Rightarrow> Inl e
      | Inr fem \<Rightarrow>
          Inr (\<lparr>name = kname,
                kernel_config.integral_type = tsfc_integral_data.integral_type intg_data,
                kernel_config.subdomain_id = tsfc_integral_data.subdomain_id intg_data,
                kernel_config.domain_number = tsfc_integral_data.domain_number intg_data,
                kernel_config.coefficient_numbers =
                  tsfc_integral_data.coefficient_numbers intg_data,
                kernel_config.subspace_numbers = tsfc_integral_data.subspace_numbers intg_data,
                subspace_parts = map (\<lambda>x. None) (tsfc_integral_data.subspace_numbers intg_data),
                fem_config = fem,
                quadrature_indices = [],
                kernel_config.arguments = tsfc_form_data.arguments fd,
                mode_irs = []\<rparr>, n2))))))"

text \<open>
  The shapes of a set of multiindices: the extents of each multiindex, in order.
\<close>

definition shapes :: "index list list \<Rightarrow> nat option list list" where
  "shapes multiindices = map (map extent) multiindices"

text \<open>
  The index shapes of the arguments, as \<^verbatim>\<open>create_element\<close> gives them; the first
  failure is the result.
\<close>

fun argument_shapes :: "fem_library \<Rightarrow> argument list \<Rightarrow> exn + nat option list list" where
  "argument_shapes lib [] = Inr []"
| "argument_shapes lib (arg # args) =
     (case create_element lib (ufl_element (argument_space arg)) of
        Inl e \<Rightarrow> Inl e
      | Inr shape \<Rightarrow>
          (case argument_shapes lib args of
             Inl e \<Rightarrow> Inl e
           | Inr rest \<Rightarrow> Inr (map Some shape # rest)))"

text \<open>
  Example: the aggregated form data of a mass matrix \<open>u * v * dx\<close> with a test function
  of degree 1 and a trial function of degree 2, and its one integral data.
\<close>

definition mass_integral_data :: tsfc_integral_data where
  "mass_integral_data =
     \<lparr>tsfc_integral_data.domain = example_mesh,
      tsfc_integral_data.integral_type = ''cell'',
      tsfc_integral_data.subdomain_id = StrId ''otherwise'',
      tsfc_integral_data.domain_number = 0,
      tsfc_integral_data.integrals =
        [\<lparr>integrand = Operator ''mul'' [ArgumentTerm trial_function, ArgumentTerm test_function],
          metadata = [''estimated_polynomial_degree'' \<mapsto> PInt 3]\<rparr>],
      tsfc_integral_data.integral_coefficients = [],
      tsfc_integral_data.coefficients = [],
      tsfc_integral_data.coefficient_numbers = [],
      original_subspaces = [],
      subspaces = [],
      tsfc_integral_data.subspace_numbers = []\<rparr>"

definition mass_form_data :: tsfc_form_data where
  "mass_form_data =
     \<lparr>tsfc_form_data.original_form = example_form,
      tsfc_form_data.arguments = [test_function, trial_function],
      tsfc_form_data.reduced_coefficients = [],
      original_coefficient_positions = [],
      tsfc_form_data.function_replace_map = Map.empty,
      tsfc_form_data.reduced_subspaces = [],
      tsfc_form_data.original_subspace_positions = [],
      tsfc_form_data.subspace_replace_map = Map.empty,
      tsfc_form_data.integral_data = [mass_integral_data]\<rparr>"

definition double_parameters :: params where
  "double_parameters = [''scalar_type'' \<mapsto> PStr ''double'', ''scalar_type_c'' \<mapsto> PStr ''double'']"

text \<open>
  Modelled from the spec: the argument-registration step \<^verbatim>\<open>set_arguments\<close> of the
  kernel builder, which lives in \<^verbatim>\<open>tsfc.kernel_interface\<close> outside the two source files.
  The spec says that it registers the kernel's argument tensors and fails with
  \<open>UnsupportedArgumentShapeError\<close> when diagonal assembly is requested for a rank-2
  integral whose test and trial spaces have unequal tensor extents. The builder knows
  from its constructor whether diagonal assembly was requested; the extents are the index
  shapes of the elements of the configuration's arguments.
\<close>

definition set_arguments :: "fem_library \<Rightarrow> bool \<Rightarrow> 'g kernel_config \<Rightarrow> exn + unit" where
  "set_arguments lib diagonal cfg =
     (case argument_shapes lib (kernel_config.arguments cfg) of
        Inl e \<Rightarrow> Inl e
      | Inr [test, trial] \<Rightarrow>
          if diagonal \<and> test \<noteq> trial then Inl UnsupportedArgumentShapeError else Inr ()
      | Inr other \<Rightarrow> Inr ())"

section \<open>The dummy-index reconciler: \<^verbatim>\<open>replace_argument_multiindices_dummy\<close>
  (driver.py, lines 567-585)\<close>

text \<open>
  \<open>mapper\<close> is GEM's \<^verbatim>\<open>MemoizerArg(filtered_replace_indices)\<close>, applied to an expression
  and a substitution: a tuple of (dummy index, true index) pairs. The comparison of the
  two tuples of multiindices is by the identity of the indices.
\<close>

definition replace_argument_multiindices_dummy ::
  "('g \<Rightarrow> (index \<times> index) list \<Rightarrow> 'g) \<Rightarrow> 'g list \<Rightarrow> 'g kernel_config \<Rightarrow> 'g list" where
  "replace_argument_multiindices_dummy mapper expressions cfg =
     (let multiindices = argument_multiindices (fem_config cfg);
          multiindices_dummy = argument_multiindices_dummy (fem_config cfg)
      in if multiindices_dummy = multiindices then expressions
         else (let substitution = zip (concat multiindices_dummy) (concat multiindices)
               in map (\<lambda>expr. mapper expr substitution) expressions))"

section \<open>The kernel-builder protocol, \<^verbatim>\<open>compile_integral\<close> and \<^verbatim>\<open>compile_form\<close>
  (driver.py, lines 172-269)\<close>

text \<open>
  What changes while a form is compiled: the number of indices made so far and the
  records of the logger (the process), and for one integral data the builder and its
  kernel configuration. Every method of the builder takes the state and returns it. What
  was logged before an exception is not kept.
\<close>

record world =
  index_count :: nat
  logged :: "log_record list"

record ('b, 'g) compile_state =
  builder :: 'b
  config :: "'g kernel_config"
  world :: world

text \<open>
  A kernel interface, the \<^verbatim>\<open>interface\<close> argument of \<^verbatim>\<open>compile_form\<close>: the constructor
  of the builder (with its optional keyword \<^verbatim>\<open>function_replace_map\<close>) and the methods
  the driver calls. \<open>'b\<close> is the builder, \<open>'r\<close> what \<^verbatim>\<open>construct_integrals\<close> returns,
  \<open>'k\<close> a kernel; \<^verbatim>\<open>construct_kernel\<close> may return \<^verbatim>\<open>None\<close>.
\<close>

record ('b, 'g, 'r, 'k) kernel_interface =
  builder_init ::
    "(coefficient \<rightharpoonup> coefficient) option \<Rightarrow> string \<Rightarrow> pval \<Rightarrow> bool \<Rightarrow> tsfc_integral_data
       \<Rightarrow> exn + 'b"
  builder_set_arguments :: "('b, 'g) compile_state \<Rightarrow> exn + ('b, 'g) compile_state"
  builder_coordinate :: "'b \<Rightarrow> domain \<Rightarrow> exn + coefficient"
  builder_compile_ufl ::
    "ufl_expr \<Rightarrow> params \<Rightarrow> ('b, 'g) compile_state \<Rightarrow> exn + 'g list \<times> ('b, 'g) compile_state"
  builder_construct_integrals ::
    "'g list \<Rightarrow> params \<Rightarrow> ('b, 'g) compile_state \<Rightarrow> exn + 'r \<times> ('b, 'g) compile_state"
  builder_stash_integrals ::
    "'r \<Rightarrow> params \<Rightarrow> ('b, 'g) compile_state \<Rightarrow> exn + ('b, 'g) compile_state"
  builder_construct_kernel :: "('b, 'g) compile_state \<Rightarrow> exn + 'k option \<times> world"

text \<open>
  Everything else the driver takes from outside: the libraries, the order in which Python
  iterates a set of coefficients, GEM's index replacement, \<^verbatim>\<open>tsfc.parameters\<close>, UFL's
  \<^verbatim>\<open>compute_form_data\<close> and the two default interfaces.
\<close>

record ('b, 'g, 'r, 'k) environment =
  fem :: fem_library
  set_order :: "coefficient list \<Rightarrow> coefficient list"
  filtered_replace_indices :: "'g \<Rightarrow> (index \<times> index) list \<Rightarrow> 'g"
  default_parameters :: params
  is_complex :: "pval option \<Rightarrow> bool"
  compute_form_data :: "form \<Rightarrow> bool \<Rightarrow> exn + form_data"
  firedrake_interface_coffee :: "('b, 'g, 'r, 'k) kernel_interface"
  firedrake_interface_loopy :: "('b, 'g, 'r, 'k) kernel_interface"



text \<open>Lines 246-253 of \<^verbatim>\<open>compile_integral\<close>: the loop over the integrals.\<close>

fun compile_integrals ::
  "('b, 'g, 'r, 'k) environment \<Rightarrow> ('b, 'g, 'r, 'k) kernel_interface \<Rightarrow> tsfc_integral_data
     \<Rightarrow> form_function list \<Rightarrow> params \<Rightarrow> integral list \<Rightarrow> ('b, 'g) compile_state
     \<Rightarrow> exn + ('b, 'g) compile_state" where
  "compile_integrals env iface intg_data functions parameters [] st = Inr st"
| "compile_integrals env iface intg_data functions parameters (itg # rest) st =
     (case set_quad_rule (fem env) (parameters ++ metadata itg)
             (domain.ufl_cell (tsfc_integral_data.domain intg_data))
             (tsfc_integral_data.integral_type intg_data) functions of
        Inl e \<Rightarrow> Inl e
      | Inr (params, records) \<Rightarrow>
     (case builder_compile_ufl iface (integrand itg) params
             (st\<lparr>world := (world st)\<lparr>logged := logged (world st) @ records\<rparr>\<rparr>) of
        Inl e \<Rightarrow> Inl e
      | Inr (expressions, st1) \<Rightarrow>
     (case builder_construct_integrals iface
             (replace_argument_multiindices_dummy (filtered_replace_indices env)
                expressions (config st1))
             params st1 of
        Inl e \<Rightarrow> Inl e
      | Inr (reps, st2) \<Rightarrow>
     (case builder_stash_integrals iface reps params st2 of
        Inl e \<Rightarrow> Inl e
      | Inr st3 \<Rightarrow> compile_integrals env iface intg_data functions parameters rest st3))))"

text \<open>
  \<^verbatim>\<open>compile_integral\<close> (lines 210-254). The result is what \<^verbatim>\<open>construct_kernel\<close>
  returns.
\<close>

definition compile_integral ::
  "('b, 'g, 'r, 'k) environment \<Rightarrow> tsfc_integral_data \<Rightarrow> tsfc_form_data \<Rightarrow> string \<Rightarrow> params
     \<Rightarrow> ('b, 'g, 'r, 'k) kernel_interface option \<Rightarrow> bool \<Rightarrow> bool \<Rightarrow> world
     \<Rightarrow> exn + 'k option \<times> world" where
  "compile_integral env intg_data fd prefix parameters interface coffee diagonal w =
     (let iface = (case interface of
                     None \<Rightarrow> if coffee then firedrake_interface_coffee env
                             else firedrake_interface_loopy env
                   | Some i \<Rightarrow> i)
      in
     (case parameters (if coffee then ''scalar_type_c'' else ''scalar_type'') of
        None \<Rightarrow> Inl (KeyError (if coffee then ''scalar_type_c'' else ''scalar_type''))
      | Some stype \<Rightarrow>
     (case builder_init iface None (tsfc_integral_data.integral_type intg_data) stype diagonal
             intg_data of
        Inl e \<Rightarrow> Inl e
      | Inr b \<Rightarrow>
     (case create_kernel_config (fem env)
             (kernel_name prefix (tsfc_integral_data.integral_type intg_data)
                (tsfc_integral_data.subdomain_id intg_data))
             fd intg_data parameters diagonal (index_count w) of
        Inl e \<Rightarrow> Inl e
      | Inr (cfg, n) \<Rightarrow>
     (case builder_set_arguments iface
             \<lparr>builder = b, config = cfg, world = w\<lparr>index_count := n\<rparr>\<rparr> of
        Inl e \<Rightarrow> Inl e
      | Inr st \<Rightarrow>
     (case builder_coordinate iface (builder st) (tsfc_integral_data.domain intg_data) of
        Inl e \<Rightarrow> Inl e
      | Inr coord \<Rightarrow>
     (case compile_integrals env iface intg_data
             (map FormArgument (kernel_config.arguments (config st))
                @ [FormCoefficient coord]
                @ map FormCoefficient (tsfc_integral_data.integral_coefficients intg_data))
             parameters (tsfc_integral_data.integrals intg_data) st of
        Inl e \<Rightarrow> Inl e
      | Inr st' \<Rightarrow> builder_construct_kernel iface st')))))))"








section \<open>An example backend\<close>

text \<open>
  A kernel interface for the examples. Its builder remembers whether diagonal assembly
  was requested and counts the representations stashed; it registers arguments with
  \<open>set_arguments\<close>; an expression is a name with its free indices; a kernel is its name,
  and there is no kernel when nothing was stashed.
\<close>

definition example_interface ::
  "(bool \<times> nat, string \<times> index list, (string \<times> index list) list, string) kernel_interface"
  where
  "example_interface =
     \<lparr>builder_init = (\<lambda>keyword itype stype diagonal intg_data. Inr (diagonal, 0)),
      builder_set_arguments =
        (\<lambda>st. case set_arguments example_library (fst (builder st)) (config st) of
                 Inl e \<Rightarrow> Inl e
               | Inr u \<Rightarrow> Inr st),
      builder_coordinate = (\<lambda>b mesh. Inr (Coefficient lagrange_space 1000)),
      builder_compile_ufl =
        (\<lambda>e ps st. Inr ([(''integrand'',
                            concat (argument_multiindices_dummy (fem_config (config st))))], st)),
      builder_construct_integrals = (\<lambda>expressions ps st. Inr (expressions, st)),
      builder_stash_integrals =
        (\<lambda>reps ps st. Inr (st\<lparr>builder := (fst (builder st), snd (builder st) + length reps)\<rparr>)),
      builder_construct_kernel =
        (\<lambda>st. Inr (if snd (builder st) = 0 then None else Some (name (config st)), world st))\<rparr>"

text \<open>
  The form \<open>f * v * dx\<close> with subdomain id -1, and an exterior-facet group without
  integrals, for which the example backend has no kernel.
\<close>

definition negative_form_data :: form_data where
  "negative_form_data =
     \<lparr>form_data.original_form = example_form,
      form_data.arguments = [test_function],
      form_data.reduced_coefficients = [coefficient_f],
      form_data.function_replace_map = [coefficient_f \<mapsto> Coefficient lagrange_space 0],
      form_data.reduced_subspaces = [],
      form_data.original_subspace_positions = [],
      form_data.subspace_replace_map = Map.empty,
      form_data.integral_data =
        [cell_integral_data\<lparr>integral_data.subdomain_id := IntId (- 1)\<rparr>,
         facet_integral_data\<lparr>integral_data.integrals := [],
                             integral_data.integral_coefficients := []\<rparr>]\<rparr>"

definition example_environment ::
  "(bool \<times> nat, string \<times> index list, (string \<times> index list) list, string) environment" where
  "example_environment =
     \<lparr>fem = example_library,
      set_order = remdups,
      filtered_replace_indices =
        (\<lambda>(nm, free) substitution.
           (nm, map (\<lambda>i. case map_of substitution i of None \<Rightarrow> i | Some j \<Rightarrow> j) free)),
      default_parameters =
        [''quadrature_degree'' \<mapsto> PStr ''auto'', ''quadrature_rule'' \<mapsto> PStr ''auto'',
         ''scalar_type'' \<mapsto> PStr ''double'', ''scalar_type_c'' \<mapsto> PStr ''double''],
      is_complex = (\<lambda>v. v = Some (PStr ''double complex'')),
      compute_form_data = (\<lambda>frm complex_mode. Inr negative_form_data),
      firedrake_interface_coffee = example_interface,
      firedrake_interface_loopy = example_interface\<rparr>"

definition initial_world :: world where
  "initial_world = \<lparr>index_count = 0, logged = []\<rparr>"


section \<open>Entity lowering: the classification table\<close>













section \<open>The coefficient accessor\<close>

text \<open>
  C10. For a coefficient registered with the builder: if its element family is
  \<^verbatim>\<open>Real\<close>, the accessor returns the registered kernel argument itself, whatever the
  restriction and whether or not the kernel is an interior-facet kernel; otherwise, on an
  interior-facet kernel, it returns component 0 of the kernel argument for restriction
  \<^verbatim>\<open>'+'\<close> and component 1 for restriction \<^verbatim>\<open>'-'\<close>.
\<close>

theorem coefficient_accessor:
  assumes "coefficient_map self c = Some kernel_arg"
  shows "(family (ufl_element (coefficient_space c)) = ''Real'' \<longrightarrow>
            coefficient self c restriction = Inr (KernelArg kernel_arg))
         \<and> (family (ufl_element (coefficient_space c)) \<noteq> ''Real'' \<and> interior_facet self \<longrightarrow>
            coefficient self c (Some ''+'') = Inr (GetItem kernel_arg 0)
            \<and> coefficient self c (Some ''-'') = Inr (GetItem kernel_arg 1))"
  using assms by (simp add: coefficient_def restriction_component_def)

theorem coefficient_accessor_witness:
  "coefficient facet_builder (Coefficient real_space 1) (Some ''-'') = Inr (KernelArg ''w_1'')
   \<and> coefficient facet_builder (Coefficient real_space 1) None = Inr (KernelArg ''w_1'')
   \<and> coefficient facet_builder (Coefficient lagrange_space 0) (Some ''+'') = Inr (GetItem ''w_0'' 0)
   \<and> coefficient facet_builder (Coefficient lagrange_space 0) (Some ''-'') = Inr (GetItem ''w_0'' 1)"
proof -
  have r: "coefficient_map facet_builder (Coefficient real_space 1) = Some ''w_1''"
    by (simp add: facet_builder_def lagrange_space_def real_space_def)
  have l: "coefficient_map facet_builder (Coefficient lagrange_space 0) = Some ''w_0''"
    by (simp add: facet_builder_def)
  have i: "interior_facet facet_builder"
    by (simp add: facet_builder_def KernelBuilderBase_def)
  from coefficient_accessor [OF r, of "Some ''-''"] coefficient_accessor [OF r, of None]
    coefficient_accessor [OF l, of None] i
  show ?thesis by (simp add: real_space_def lagrange_space_def)
qed

section \<open>Quadrature resolution\<close>

lemma tenfold_greater_error: "tenfold_greater q d = Inl e \<Longrightarrow> numpy_error e"
  by (cases "(q, d)" rule: tenfold_greater.cases) (auto simp: numpy_error_def split: if_splits)

lemma all_tenfold_greater_error: "all_tenfold_greater q ds = Inl e \<Longrightarrow> numpy_error e"
  by (induction ds) (auto split: sum.splits if_splits dest: tenfold_greater_error)

lemma np_maximum_error: "np_maximum a b = Inl e \<Longrightarrow> numpy_error e"
  by (cases "(a, b)" rule: np_maximum.cases) (auto simp: numpy_error_def split: if_splits)

lemma reduce_maximum_error: "reduce_maximum a ds = Inl e \<Longrightarrow> numpy_error e"
  by (induction ds arbitrary: a) (auto split: sum.splits dest: np_maximum_error)

lemma max_degree_error: "max_degree ds = Inl e \<Longrightarrow> numpy_error e"
  by (auto simp: max_degree_def numpy_error_def split: list.splits if_splits
      dest: reduce_maximum_error)

lemma resolve_quadrature_degree_error:
  "resolve_quadrature_degree params functions = Inl e \<Longrightarrow>
   numpy_error e \<or> e = KeyError ''estimated_polynomial_degree''"
  by (auto simp: resolve_quadrature_degree_def Let_def
      split: option.splits sum.splits if_splits
      dest: all_tenfold_greater_error max_degree_error)

lemma invalid_rule_not_numpy: "\<not> numpy_error (InvalidQuadratureRuleError v)"
  by (simp add: numpy_error_def InvalidQuadratureRuleError_def)

lemma invalid_rule_only_from_check:
  "params ''quadrature_rule'' = Some supplied \<Longrightarrow> supplied \<noteq> PStr ''default'' \<Longrightarrow>
   set_quad_rule lib params cell itype functions = Inl (InvalidQuadratureRuleError v) \<Longrightarrow>
   \<not> is_AbstractQuadratureRule supplied"
  using invalid_rule_not_numpy [of v]
  by (auto simp: set_quad_rule_def Let_def InvalidQuadratureRuleError_def
      split: sum.splits prod.splits if_splits dest!: resolve_quadrature_degree_error)

lemma set_quad_rule_leaves_rule:
  "set_quad_rule lib params cell itype functions = Inr (params', records') \<Longrightarrow>
   \<exists>rule. params' ''quadrature_rule'' = Some (PRule rule)"
  by (auto simp: set_quad_rule_def Let_def
      split: sum.splits option.splits if_splits prod.splits
      elim: is_AbstractQuadratureRule.elims)







text \<open>
  C9. When the parameters carry a quadrature rule entry (other than the string
  \<^verbatim>\<open>default\<close>) and the degree has been resolved, \<^verbatim>\<open>set_quad_rule\<close> returns the
  parameter set unchanged, with the supplied rule in it, if the entry is an
  \<^verbatim>\<open>AbstractQuadratureRule\<close>, and fails with \<open>InvalidQuadratureRuleError\<close> (the source's
  \<^verbatim>\<open>ValueError\<close>) if it is not; with such an entry it never fails with that error for a
  recognised rule. Whenever \<^verbatim>\<open>set_quad_rule\<close> returns, the parameter set holds a
  quadrature rule under \<^verbatim>\<open>quadrature_rule\<close>.
\<close>

theorem explicit_quadrature_rule:
  "(resolve_quadrature_degree params functions = Inr (chosen, records)
      \<and> params ''quadrature_rule'' = Some supplied \<and> supplied \<noteq> PStr ''default'' \<longrightarrow>
    set_quad_rule lib params cell itype functions
      = (if is_AbstractQuadratureRule supplied then Inr (params, records)
         else Inl (InvalidQuadratureRuleError supplied)))
   \<and> (params ''quadrature_rule'' = Some supplied \<and> supplied \<noteq> PStr ''default''
      \<and> set_quad_rule lib params cell itype functions = Inl (InvalidQuadratureRuleError v)
      \<longrightarrow> \<not> is_AbstractQuadratureRule supplied)
   \<and> (set_quad_rule lib params cell itype functions = Inr (params', records') \<longrightarrow>
      (\<exists>rule. params' ''quadrature_rule'' = Some (PRule rule)))"
proof (intro conjI impI)
  assume "resolve_quadrature_degree params functions = Inr (chosen, records)
      \<and> params ''quadrature_rule'' = Some supplied \<and> supplied \<noteq> PStr ''default''"
  then show "set_quad_rule lib params cell itype functions
      = (if is_AbstractQuadratureRule supplied then Inr (params, records)
         else Inl (InvalidQuadratureRuleError supplied))"
    by (auto simp: set_quad_rule_def Let_def)
next
  assume "params ''quadrature_rule'' = Some supplied \<and> supplied \<noteq> PStr ''default''
      \<and> set_quad_rule lib params cell itype functions = Inl (InvalidQuadratureRuleError v)"
  then show "\<not> is_AbstractQuadratureRule supplied"
    using invalid_rule_only_from_check by blast
next
  assume "set_quad_rule lib params cell itype functions = Inr (params', records')"
  then show "\<exists>rule. params' ''quadrature_rule'' = Some (PRule rule)"
    by (rule set_quad_rule_leaves_rule)
qed

theorem explicit_quadrature_rule_witness:
  "set_quad_rule example_library (params_rule (PRule (QuadratureRule ''mine''))) ''triangle''
       ''cell'' lagrange_functions
     = Inr (params_rule (PRule (QuadratureRule ''mine'')), [])
   \<and> set_quad_rule example_library (params_rule (PInt 3)) ''triangle'' ''cell'' lagrange_functions
     = Inl (InvalidQuadratureRuleError (PInt 3))
   \<and> params_rule (PRule (QuadratureRule ''mine'')) ''quadrature_rule''
     = Some (PRule (QuadratureRule ''mine''))"
proof -
  have res: "resolve_quadrature_degree (params_rule v) lagrange_functions = Inr (PInt 4, [])" for v
    by (simp add: resolve_quadrature_degree_def params_rule_def)
  from explicit_quadrature_rule
      [of "params_rule (PRule (QuadratureRule ''mine''))" lagrange_functions "PInt 4" "[]"
          "PRule (QuadratureRule ''mine'')" example_library "''triangle''" "''cell''"]
    explicit_quadrature_rule
      [of "params_rule (PInt 3)" lagrange_functions "PInt 4" "[]" "PInt 3" example_library
          "''triangle''" "''cell''"] res
  show ?thesis by (simp add: params_rule_def)
qed

section \<open>The form-data aggregator\<close>

lemma remdups_singleton: "remdups xs = [x] \<Longrightarrow> set xs = {x}"
  by (metis empty_set list.simps(15) set_remdups)

lemmas example_form_defs =
  cell_form_data_def facet_form_data_def bilinear_form_data_def cell_integral_data_def
  facet_integral_data_def example_form_def coefficient_f_def coefficient_g_def
  test_function_def trial_function_def example_mesh_def lagrange_space_def
  lagrange2_space_def integral_key_def

text \<open>
  C8. If two of the form data have different argument tuples, the aggregator fails with
  \<open>InconsistentArgumentsError\<close> (the source's \<^verbatim>\<open>ValueError\<close>): the result is that one
  exception, raised before anything else is computed, and no aggregated form data.
\<close>

theorem inconsistent_arguments:
  assumes "\<exists>a\<in>set fds. \<exists>b\<in>set fds. form_data.arguments a \<noteq> form_data.arguments b"
  shows "TSFCFormData iterate fds orig diagonal = Inl InconsistentArgumentsError"
proof -
  have "\<not> (\<exists>x. remdups (map form_data.arguments fds) = [x])"
  proof
    assume "\<exists>x. remdups (map form_data.arguments fds) = [x]"
    then obtain x where "remdups (map form_data.arguments fds) = [x]" ..
    then have "set (map form_data.arguments fds) = {x}" by (rule remdups_singleton)
    then have "form_data.arguments a = x" if "a \<in> set fds" for a
      using that by auto
    with assms show False by metis
  qed
  then show ?thesis
    by (auto simp: TSFCFormData_def split: list.splits)
qed

theorem inconsistent_arguments_witness:
  "form_data.arguments cell_form_data \<noteq> form_data.arguments bilinear_form_data
   \<and> TSFCFormData remdups [cell_form_data, facet_form_data, bilinear_form_data] example_form False
       = Inl InconsistentArgumentsError"
proof -
  have d: "form_data.arguments cell_form_data \<noteq> form_data.arguments bilinear_form_data"
    by (simp add: example_form_defs)
  then have "\<exists>a\<in>set [cell_form_data, facet_form_data, bilinear_form_data].
             \<exists>b\<in>set [cell_form_data, facet_form_data, bilinear_form_data].
               form_data.arguments a \<noteq> form_data.arguments b"
    by (intro bexI [of _ cell_form_data] bexI [of _ bilinear_form_data]) simp_all
  from inconsistent_arguments [OF this] d show ?thesis by simp
qed

lemma TSFCFormData_reduced:
  "TSFCFormData iterate fds orig diagonal = Inr u \<Longrightarrow>
   tsfc_form_data.reduced_coefficients u = reduce_coefficients iterate fds"
  by (auto simp: TSFCFormData_def Let_def split: list.splits sum.splits)

lemma TSFCFormData_positions:
  "TSFCFormData iterate fds orig diagonal = Inr u \<Longrightarrow>
   original_coefficient_positions u =
     map fst (filter (\<lambda>(i, f). f \<in> set (reduce_coefficients iterate fds))
                (enumerate 0 (form.coefficients orig)))"
  by (auto simp: TSFCFormData_def Let_def split: list.splits sum.splits)

lemma reduce_coefficients_set:
  "set_iteration iterate \<Longrightarrow>
   set (reduce_coefficients iterate fds)
     = (\<Union>fd\<in>set fds. set (form_data.reduced_coefficients fd))"
  by (auto simp: reduce_coefficients_def set_iteration_def)

lemma reduce_coefficients_distinct:
  "set_iteration iterate \<Longrightarrow> distinct (reduce_coefficients iterate fds)"
  by (simp add: reduce_coefficients_def set_iteration_def)

lemma reduce_coefficients_sorted:
  "sorted (map coefficient_count (reduce_coefficients iterate fds))"
  by (simp add: reduce_coefficients_def)

lemma sorted_by_injective_key_unique:
  assumes "inj_on f (set xs)" "set xs = set ys" "distinct xs" "distinct ys"
    "sorted (map f xs)" "sorted (map f ys)"
  shows "xs = ys"
proof -
  have "distinct (map f xs)" "distinct (map f ys)"
    using assms by (auto simp: distinct_map)
  moreover have "set (map f xs) = set (map f ys)" using assms by simp
  ultimately have "map f xs = map f ys"
    using assms(5,6) by (intro sorted_distinct_set_unique) auto
  then show ?thesis using assms(1,2)
    by (metis inj_on_map_eq_map sup.idem)
qed

lemma reduce_coefficients_permutation:
  assumes "set_iteration iterate"
    and "inj_on coefficient_count (\<Union>fd\<in>set fds. set (form_data.reduced_coefficients fd))"
    and "mset fds' = mset fds"
  shows "reduce_coefficients iterate fds' = reduce_coefficients iterate fds"
proof -
  have s: "set fds' = set fds" using assms(3) by (metis set_mset_mset)
  show ?thesis
    by (rule sorted_by_injective_key_unique [where f = coefficient_count])
       (use assms(1,2) s in \<open>simp_all add: reduce_coefficients_set
          reduce_coefficients_distinct reduce_coefficients_sorted\<close>)
qed

text \<open>
  C1, as the code has it. Let the aggregator return a form data \<open>u\<close> for the form data
  \<open>fds\<close>, and let distinct reduced coefficients have distinct counts. Then the reduced
  coefficients of \<open>u\<close> are the union of the reduced coefficients of all \<open>fds\<close>, each once,
  in the order of their counts. If the aggregator also returns \<open>u'\<close> for a permutation of
  \<open>fds\<close>, then \<open>u'\<close> has the same reduced coefficients in the same order, the same original
  coefficient positions and the same arguments as \<open>u\<close>. (The replace map, the subspaces
  and the order of the integral data follow the order of the input: see the
  counterexample.)
\<close>

theorem reduced_coefficients_order:
  assumes "set_iteration iterate"
    and "inj_on coefficient_count (\<Union>fd\<in>set fds. set (form_data.reduced_coefficients fd))"
    and "mset fds' = mset fds"
    and "TSFCFormData iterate fds orig diagonal = Inr u"
    and "TSFCFormData iterate fds' orig diagonal = Inr u'"
  shows "set (tsfc_form_data.reduced_coefficients u)
           = (\<Union>fd\<in>set fds. set (form_data.reduced_coefficients fd))
         \<and> distinct (tsfc_form_data.reduced_coefficients u)
         \<and> sorted (map coefficient_count (tsfc_form_data.reduced_coefficients u))
         \<and> tsfc_form_data.reduced_coefficients u' = tsfc_form_data.reduced_coefficients u
         \<and> original_coefficient_positions u' = original_coefficient_positions u
         \<and> tsfc_form_data.arguments u' = tsfc_form_data.arguments u"
proof -
  have r: "tsfc_form_data.reduced_coefficients u = reduce_coefficients iterate fds"
    and r': "tsfc_form_data.reduced_coefficients u' = reduce_coefficients iterate fds'"
    using assms(4,5) by (simp_all add: TSFCFormData_reduced)
  have p: "reduce_coefficients iterate fds' = reduce_coefficients iterate fds"
    using assms(1-3) by (rule reduce_coefficients_permutation)
  have pos: "original_coefficient_positions u' = original_coefficient_positions u"
    using assms(4,5) by (simp add: TSFCFormData_positions p)
  have s: "set (map form_data.arguments fds') = set (map form_data.arguments fds)"
    using assms(3) by (metis mset_map set_mset_mset)
  have "remdups (map form_data.arguments fds) = [tsfc_form_data.arguments u]"
    using assms(4) by (auto simp: TSFCFormData_def Let_def split: list.splits sum.splits)
  moreover have "remdups (map form_data.arguments fds') = [tsfc_form_data.arguments u']"
    using assms(5) by (auto simp: TSFCFormData_def Let_def split: list.splits sum.splits)
  ultimately have args: "tsfc_form_data.arguments u' = tsfc_form_data.arguments u"
    using s by (metis remdups_singleton singleton_inject)
  from r r' p pos args assms(1) show ?thesis
    by (simp add: reduce_coefficients_set reduce_coefficients_distinct
        reduce_coefficients_sorted)
qed

theorem reduced_coefficients_order_witness:
  "tsfc_form_data.reduced_coefficients
       (projr (TSFCFormData remdups [cell_form_data, facet_form_data] example_form False))
     = [coefficient_f, coefficient_g]
   \<and> tsfc_form_data.reduced_coefficients
       (projr (TSFCFormData remdups [facet_form_data, cell_form_data] example_form False))
     = [coefficient_f, coefficient_g]
   \<and> \<not> isl (TSFCFormData remdups [cell_form_data, facet_form_data] example_form False)
   \<and> \<not> isl (TSFCFormData remdups [facet_form_data, cell_form_data] example_form False)"
proof -
  let ?a = "TSFCFormData remdups [cell_form_data, facet_form_data] example_form False"
  let ?b = "TSFCFormData remdups [facet_form_data, cell_form_data] example_form False"
  have it: "set_iteration (remdups :: coefficient list \<Rightarrow> coefficient list)"
    by (simp add: set_iteration_def)
  have inj: "inj_on coefficient_count
      (\<Union>fd\<in>set [cell_form_data, facet_form_data]. set (form_data.reduced_coefficients fd))"
    by (simp add: example_form_defs)
  have perm: "mset [facet_form_data, cell_form_data] = mset [cell_form_data, facet_form_data]"
    by simp
  have a: "\<not> isl ?a"
    by (simp add: TSFCFormData_def TSFCIntegralData_def reduce_coefficients_def
        example_form_defs Let_def)
  have b: "\<not> isl ?b"
    by (simp add: TSFCFormData_def TSFCIntegralData_def reduce_coefficients_def
        example_form_defs Let_def)
  have ra: "tsfc_form_data.reduced_coefficients (projr ?a) = [coefficient_f, coefficient_g]"
    by (simp add: TSFCFormData_def TSFCIntegralData_def reduce_coefficients_def
        example_form_defs Let_def)
  from reduced_coefficients_order [OF it inj perm, of example_form False "projr ?a" "projr ?b"]
    a b ra
  show ?thesis by simp
qed

text \<open>
  The aggregated form data is not the same for every order of the form data: the two
  form data of the example share their arguments, and their integral data come out in the
  order of the input.
\<close>

theorem aggregation_follows_input_order:
  "form_data.arguments cell_form_data = form_data.arguments facet_form_data
   \<and> map_sum id (map tsfc_integral_data.integral_type \<circ> tsfc_form_data.integral_data)
        (TSFCFormData remdups [cell_form_data, facet_form_data] example_form False)
      = Inr [''cell'', ''exterior_facet'']
   \<and> map_sum id (map tsfc_integral_data.integral_type \<circ> tsfc_form_data.integral_data)
        (TSFCFormData remdups [facet_form_data, cell_form_data] example_form False)
      = Inr [''exterior_facet'', ''cell'']
   \<and> TSFCFormData remdups [cell_form_data, facet_form_data] example_form False
      \<noteq> TSFCFormData remdups [facet_form_data, cell_form_data] example_form False"
proof -
  let ?a = "TSFCFormData remdups [cell_form_data, facet_form_data] example_form False"
  let ?b = "TSFCFormData remdups [facet_form_data, cell_form_data] example_form False"
  let ?types = "map_sum id (map tsfc_integral_data.integral_type \<circ> tsfc_form_data.integral_data)"
  have args: "form_data.arguments cell_form_data = form_data.arguments facet_form_data"
    by (simp add: example_form_defs)
  have a: "?types ?a = Inr [''cell'', ''exterior_facet'']"
    by (simp add: TSFCFormData_def TSFCIntegralData_def reduce_coefficients_def
        example_form_defs Let_def)
  have b: "?types ?b = Inr [''exterior_facet'', ''cell'']"
    by (simp add: TSFCFormData_def TSFCIntegralData_def reduce_coefficients_def
        example_form_defs Let_def)
  have "?a \<noteq> ?b"
  proof
    assume "?a = ?b"
    then have "?types ?a = ?types ?b" by simp
    with a b show False by simp
  qed
  with args a b show ?thesis by simp
qed

section \<open>The kernel configuration\<close>

lemma new_indices_spec:
  "new_indices es n = (is, n') \<Longrightarrow>
   map extent is = es \<and> n' = n + length es \<and> (\<forall>i\<in>set is. n \<le> index_id i \<and> index_id i < n')"
proof (induction es arbitrary: n "is" n')
  case Nil
  then show ?case by simp
next
  case (Cons e es)
  obtain rest m where r: "new_indices es (Suc n) = (rest, m)" by force
  with Cons.prems have eq: "is = Index n e # rest" "n' = m" by auto
  from Cons.IH [OF r] eq show ?case by auto
qed

lemma argument_indices_spec:
  "argument_indices lib args n = Inr (mis, n') \<Longrightarrow>
   argument_shapes lib args = Inr (shapes mis) \<and> n \<le> n'
   \<and> (\<forall>i\<in>set (concat mis). n \<le> index_id i \<and> index_id i < n')"
proof (induction args arbitrary: n mis n')
  case Nil
  then show ?case by (simp add: shapes_def)
next
  case (Cons arg args)
  from Cons.prems obtain shape where s: "create_element lib (ufl_element (argument_space arg)) = Inr shape"
    by (auto split: sum.splits)
  obtain mi n1 where m: "new_indices (map Some shape) n = (mi, n1)" by force
  from Cons.prems s m obtain rest where r: "argument_indices lib args n1 = Inr (rest, n')"
    and eq: "mis = mi # rest"
    by (auto split: sum.splits)
  from new_indices_spec [OF m] Cons.IH [OF r] s eq show ?case
    by (fastforce simp: shapes_def)
qed

lemma dummy_indices_spec:
  "dummy_indices mis n = (ds, n') \<Longrightarrow>
   shapes ds = shapes mis \<and> n \<le> n'
   \<and> (\<forall>i\<in>set (concat ds). n \<le> index_id i \<and> index_id i < n')"
proof (induction mis arbitrary: n ds n')
  case Nil
  then show ?case by (simp add: shapes_def)
next
  case (Cons mi mis)
  obtain d n1 where m: "new_indices (map extent mi) n = (d, n1)" by force
  obtain rest n2 where r: "dummy_indices mis n1 = (rest, n2)" by force
  from Cons.prems m r have eq: "ds = d # rest" "n' = n2" by auto
  from new_indices_spec [OF m] Cons.IH [OF r] eq show ?case
    by (fastforce simp: shapes_def)
qed

lemma create_kernel_config_indices:
  assumes "create_kernel_config lib kname fd idata params diagonal n = Inr (cfg, n')"
  shows "\<exists>mis n1.
    argument_indices lib (tsfc_form_data.arguments fd) n = Inr (mis, n1)
    \<and> dummy_indices mis n1 = (argument_multiindices_dummy (fem_config cfg), n')
    \<and> (\<not> diagonal \<longrightarrow> argument_multiindices (fem_config cfg) = mis)
    \<and> (diagonal \<longrightarrow> (\<exists>a b. mis = [a, b] \<and> argument_multiindices (fem_config cfg) = [a, a]))
    \<and> kernel_config.arguments cfg = tsfc_form_data.arguments fd"
  using assms
  by (auto simp: create_kernel_config_def create_fem_config_def Let_def
      split: sum.splits prod.splits if_splits option.splits list.splits)

lemmas mass_defs =
  mass_form_data_def mass_integral_data_def test_function_def trial_function_def
  lagrange_space_def lagrange2_space_def example_mesh_def example_library_def
  double_parameters_def create_kernel_config_def create_fem_config_def
  lower_integral_type_def integration_dimension_def triangle_def shapes_def

text \<open>
  C7, as the code has it. In every kernel configuration \<^verbatim>\<open>create_kernel_config\<close>
  returns, the dummy multiindices have the index shapes of the arguments, one multiindex
  per argument in order, and no dummy index is one of the true indices. Without diagonal
  assembly the true multiindices have the same shapes as the dummy ones. With diagonal
  assembly there are two arguments, the true multiindices have the shapes (test, test)
  and the dummy ones keep (test, trial): the shapes agree only when the test and trial
  extents do.
\<close>

theorem kernel_config_shapes:
  assumes "create_kernel_config lib kname fd idata params diagonal n = Inr (cfg, n')"
  shows "argument_shapes lib (tsfc_form_data.arguments fd)
           = Inr (shapes (argument_multiindices_dummy (fem_config cfg)))
         \<and> (\<not> diagonal \<longrightarrow>
              shapes (argument_multiindices (fem_config cfg))
                = shapes (argument_multiindices_dummy (fem_config cfg)))
         \<and> (diagonal \<longrightarrow>
              (\<exists>s t. shapes (argument_multiindices_dummy (fem_config cfg)) = [s, t]
                   \<and> shapes (argument_multiindices (fem_config cfg)) = [s, s]))
         \<and> set (concat (argument_multiindices_dummy (fem_config cfg)))
              \<inter> set (concat (argument_multiindices (fem_config cfg))) = {}"
proof -
  define ds where "ds = argument_multiindices_dummy (fem_config cfg)"
  from create_kernel_config_indices [OF assms] obtain mis n1 where
    a: "argument_indices lib (tsfc_form_data.arguments fd) n = Inr (mis, n1)"
    and d: "dummy_indices mis n1 = (ds, n')"
    and nd: "\<not> diagonal \<Longrightarrow> argument_multiindices (fem_config cfg) = mis"
    and dg: "diagonal \<Longrightarrow> \<exists>a b. mis = [a, b] \<and> argument_multiindices (fem_config cfg) = [a, a]"
    unfolding ds_def by blast
  have dummy: "argument_multiindices_dummy (fem_config cfg) = ds" by (simp add: ds_def)
  note A = argument_indices_spec [OF a]
  note D = dummy_indices_spec [OF d]
  have sub: "set (concat (argument_multiindices (fem_config cfg))) \<subseteq> set (concat mis)"
    using nd dg by (cases diagonal) auto
  have disj: "set (concat ds) \<inter> set (concat mis) = {}"
    using A D by fastforce
  have sh: "argument_shapes lib (tsfc_form_data.arguments fd) = Inr (shapes ds)"
    using A D by simp
  have c2: "\<not> diagonal \<longrightarrow> shapes (argument_multiindices (fem_config cfg)) = shapes ds"
    using nd D by simp
  have c3: "diagonal \<longrightarrow> (\<exists>s t. shapes ds = [s, t]
       \<and> shapes (argument_multiindices (fem_config cfg)) = [s, s])"
  proof
    assume diagonal
    then obtain a b where "mis = [a, b]" "argument_multiindices (fem_config cfg) = [a, a]"
      using dg by blast
    with D show "\<exists>s t. shapes ds = [s, t]
       \<and> shapes (argument_multiindices (fem_config cfg)) = [s, s]"
      by (simp add: shapes_def)
  qed
  from sh c2 c3 sub disj dummy show ?thesis by auto
qed


theorem kernel_config_shapes_witness:
  "\<not> isl (create_kernel_config example_library ''form_cell_integral_otherwise''
            mass_form_data mass_integral_data double_parameters False 0
          :: exn + unit kernel_config \<times> nat)
   \<and> shapes (argument_multiindices (fem_config (fst (projr
         (create_kernel_config example_library ''form_cell_integral_otherwise''
            mass_form_data mass_integral_data double_parameters False 0
          :: exn + unit kernel_config \<times> nat)))))
     = [[Some 3], [Some 6]]
   \<and> shapes (argument_multiindices_dummy (fem_config (fst (projr
         (create_kernel_config example_library ''form_cell_integral_otherwise''
            mass_form_data mass_integral_data double_parameters False 0
          :: exn + unit kernel_config \<times> nat)))))
     = [[Some 3], [Some 6]]"
proof -
  let ?r = "create_kernel_config example_library ''form_cell_integral_otherwise''
            mass_form_data mass_integral_data double_parameters False 0
          :: exn + unit kernel_config \<times> nat"
  have r: "\<not> isl ?r" by (simp add: mass_defs)
  then have eq: "?r = Inr (fst (projr ?r), snd (projr ?r))" by simp
  have d: "shapes (argument_multiindices_dummy (fem_config (fst (projr ?r))))
             = [[Some 3], [Some 6]]"
    by (simp add: mass_defs)
  from kernel_config_shapes [OF eq] r d show ?thesis by simp
qed

text \<open>
  The shapes do differ: diagonal assembly of the mass matrix of a test space with 3 and
  a trial space with 6 basis functions gives a configuration with true shapes (3, 3) and
  dummy shapes (3, 6).
\<close>

theorem diagonal_shapes_differ:
  "map_sum id (shapes \<circ> argument_multiindices \<circ> fem_config \<circ> fst)
     (create_kernel_config example_library ''form_cell_integral_otherwise''
        mass_form_data mass_integral_data double_parameters True 0
      :: exn + unit kernel_config \<times> nat)
     = Inr [[Some 3], [Some 3]]
   \<and> map_sum id (shapes \<circ> argument_multiindices_dummy \<circ> fem_config \<circ> fst)
     (create_kernel_config example_library ''form_cell_integral_otherwise''
        mass_form_data mass_integral_data double_parameters True 0
      :: exn + unit kernel_config \<times> nat)
     = Inr [[Some 3], [Some 6]]"
  by (simp add: mass_defs)

lemma compile_integral_set_arguments_fails:
  assumes "ps (if coffee then ''scalar_type_c'' else ''scalar_type'') = Some stype"
    and "builder_init iface None (tsfc_integral_data.integral_type idata) stype diagonal idata = Inr b"
    and "create_kernel_config (fem env)
        (kernel_name prefix (tsfc_integral_data.integral_type idata)
           (tsfc_integral_data.subdomain_id idata))
        fd idata ps diagonal (index_count w) = Inr (cfg, n)"
    and "builder_set_arguments iface \<lparr>builder = b, config = cfg, world = w\<lparr>index_count := n\<rparr>\<rparr>
        = Inl e"
  shows "compile_integral env idata fd prefix ps (Some iface) coffee diagonal w = Inl e"
  using assms by (simp add: compile_integral_def)


text \<open>
  C6. When \<^verbatim>\<open>create_kernel_config\<close> returns a configuration for diagonal assembly,
  the form has two arguments and the true argument multiindices are the pair (test, test):
  twice the same multiindex, the one made for the test space, with its extents. The
  builder of the configuration makes no check of its own (it returns also when the
  extents differ); the argument registration \<^verbatim>\<open>set_arguments\<close>, run on the
  configuration, fails with \<open>UnsupportedArgumentShapeError\<close> exactly when the test and
  trial extents are unequal. \<^verbatim>\<open>compile_integral\<close> hands the configuration to the
  builder's argument registration before it compiles anything: with a builder that
  registers its arguments by \<^verbatim>\<open>set_arguments\<close>, \<^verbatim>\<open>compile_integral\<close> fails with
  \<open>UnsupportedArgumentShapeError\<close> when the extents are unequal.
\<close>

theorem diagonal_multiindices:
  assumes "create_kernel_config lib kname fd idata params True n = Inr (cfg, n')"
  shows "\<exists>a s t. argument_multiindices (fem_config cfg) = [a, a]
           \<and> argument_shapes lib (tsfc_form_data.arguments fd) = Inr [s, t]
           \<and> map extent a = s
           \<and> set_arguments lib True cfg
               = (if s \<noteq> t then Inl UnsupportedArgumentShapeError else Inr ())
           \<and> (s \<noteq> t
                \<and> lib = fem env
                \<and> kname = kernel_name prefix (tsfc_integral_data.integral_type idata)
                            (tsfc_integral_data.subdomain_id idata)
                \<and> n = index_count w
                \<and> params (if coffee then ''scalar_type_c'' else ''scalar_type'') = Some stype
                \<and> builder_init iface None (tsfc_integral_data.integral_type idata) stype True
                      idata = Inr b
                \<and> builder_set_arguments iface
                      \<lparr>builder = b, config = cfg, world = w\<lparr>index_count := n'\<rparr>\<rparr>
                    = (case set_arguments lib True cfg of
                         Inl e \<Rightarrow> Inl e
                       | Inr u \<Rightarrow> Inr st) \<longrightarrow>
              compile_integral env idata fd prefix params (Some iface) coffee True w
                = Inl UnsupportedArgumentShapeError)"
proof -
  from create_kernel_config_indices [OF assms] obtain mis n1 where
    a: "argument_indices lib (tsfc_form_data.arguments fd) n = Inr (mis, n1)"
    and dg: "\<exists>a b. mis = [a, b] \<and> argument_multiindices (fem_config cfg) = [a, a]"
    and args: "kernel_config.arguments cfg = tsfc_form_data.arguments fd"
    by blast
  from dg obtain a b' where m: "mis = [a, b']"
    and t: "argument_multiindices (fem_config cfg) = [a, a]"
    by blast
  from argument_indices_spec [OF a] m
  have sh: "argument_shapes lib (tsfc_form_data.arguments fd) = Inr [map extent a, map extent b']"
    by (simp add: shapes_def)
  with args have sa: "set_arguments lib True cfg
      = (if map extent a \<noteq> map extent b' then Inl UnsupportedArgumentShapeError else Inr ())"
    by (simp add: set_arguments_def)
  have link: "compile_integral env idata fd prefix params (Some iface) coffee True w
                = Inl UnsupportedArgumentShapeError"
    if h: "map extent a \<noteq> map extent b'
                \<and> lib = fem env
                \<and> kname = kernel_name prefix (tsfc_integral_data.integral_type idata)
                            (tsfc_integral_data.subdomain_id idata)
                \<and> n = index_count w
                \<and> params (if coffee then ''scalar_type_c'' else ''scalar_type'') = Some stype
                \<and> builder_init iface None (tsfc_integral_data.integral_type idata) stype True
                      idata = Inr b
                \<and> builder_set_arguments iface
                      \<lparr>builder = b, config = cfg, world = w\<lparr>index_count := n'\<rparr>\<rparr>
                    = (case set_arguments lib True cfg of
                         Inl e \<Rightarrow> Inl e
                       | Inr u \<Rightarrow> Inr st)"
  proof -
    from h sa have f: "builder_set_arguments iface
          \<lparr>builder = b, config = cfg, world = w\<lparr>index_count := n'\<rparr>\<rparr>
        = Inl UnsupportedArgumentShapeError"
      by simp
    from h assms have c: "create_kernel_config (fem env)
        (kernel_name prefix (tsfc_integral_data.integral_type idata)
           (tsfc_integral_data.subdomain_id idata))
        fd idata params True (index_count w) = Inr (cfg, n')"
      by simp
    from h have p: "params (if coffee then ''scalar_type_c'' else ''scalar_type'') = Some stype"
      and i: "builder_init iface None (tsfc_integral_data.integral_type idata) stype True
                idata = Inr b"
      by simp_all
    from p i c f show ?thesis by (rule compile_integral_set_arguments_fails)
  qed
  from t sh sa link show ?thesis by blast
qed

theorem diagonal_multiindices_witness:
  "\<not> isl (create_kernel_config example_library ''form_cell_integral_otherwise''
            mass_form_data mass_integral_data double_parameters True 0
          :: exn + (string \<times> index list) kernel_config \<times> nat)
   \<and> argument_multiindices (fem_config (fst (projr
         (create_kernel_config example_library ''form_cell_integral_otherwise''
            mass_form_data mass_integral_data double_parameters True 0
          :: exn + (string \<times> index list) kernel_config \<times> nat))))
     = [[Index 0 (Some 3)], [Index 0 (Some 3)]]
   \<and> argument_shapes example_library (tsfc_form_data.arguments mass_form_data)
     = Inr [[Some 3], [Some 6]]
   \<and> set_arguments example_library True (fst (projr
         (create_kernel_config example_library ''form_cell_integral_otherwise''
            mass_form_data mass_integral_data double_parameters True 0
          :: exn + (string \<times> index list) kernel_config \<times> nat)))
     = Inl UnsupportedArgumentShapeError
   \<and> compile_integral example_environment mass_integral_data mass_form_data ''form''
        double_parameters (Some example_interface) True True initial_world
     = Inl UnsupportedArgumentShapeError"
proof -
  let ?r = "create_kernel_config example_library ''form_cell_integral_otherwise''
            mass_form_data mass_integral_data double_parameters True 0
          :: exn + (string \<times> index list) kernel_config \<times> nat"
  let ?cfg = "fst (projr ?r)"
  let ?st = "\<lparr>builder = (True, 0 :: nat), config = ?cfg,
              world = initial_world\<lparr>index_count := snd (projr ?r)\<rparr>\<rparr>"
  have r: "\<not> isl ?r" by (simp add: mass_defs)
  then have eq: "?r = Inr (?cfg, snd (projr ?r))" by simp
  have t: "argument_multiindices (fem_config ?cfg)
             = [[Index 0 (Some 3)], [Index 0 (Some 3)]]"
    by (simp add: mass_defs)
  have s: "argument_shapes example_library (tsfc_form_data.arguments mass_form_data)
             = Inr [[Some 3], [Some 6]]"
    by (simp add: mass_defs)
  have lib: "example_library = fem example_environment"
    by (simp add: example_environment_def)
  have nm: "''form_cell_integral_otherwise''
      = kernel_name ''form'' (tsfc_integral_data.integral_type mass_integral_data)
          (tsfc_integral_data.subdomain_id mass_integral_data)"
    by (simp add: kernel_name_def replace_minus_def mass_integral_data_def)
  have n: "(0 :: nat) = index_count initial_world"
    by (simp add: initial_world_def)
  have p: "double_parameters (if True then ''scalar_type_c'' else ''scalar_type'')
             = Some (PStr ''double'')"
    by (simp add: double_parameters_def)
  have i: "builder_init example_interface None
             (tsfc_integral_data.integral_type mass_integral_data) (PStr ''double'') True
             mass_integral_data = Inr (True, 0)"
    by (simp add: example_interface_def)
  have reg: "builder_set_arguments example_interface ?st
      = (case set_arguments example_library True ?cfg of
           Inl e \<Rightarrow> Inl e
         | Inr u \<Rightarrow> Inr ?st)"
    by (simp add: example_interface_def)
  from diagonal_multiindices [OF eq, where env = example_environment and prefix = "''form''"
      and w = initial_world and coffee = True and stype = "PStr ''double''"
      and iface = example_interface and b = "(True, 0)" and st = ?st]
  obtain a' s' t' where
    s': "argument_shapes example_library (tsfc_form_data.arguments mass_form_data)
           = Inr [s', t']"
    and sa: "set_arguments example_library True ?cfg
           = (if s' \<noteq> t' then Inl UnsupportedArgumentShapeError else Inr ())"
    and link: "s' \<noteq> t'
                \<and> example_library = fem example_environment
                \<and> ''form_cell_integral_otherwise''
                    = kernel_name ''form'' (tsfc_integral_data.integral_type mass_integral_data)
                        (tsfc_integral_data.subdomain_id mass_integral_data)
                \<and> 0 = index_count initial_world
                \<and> double_parameters (if True then ''scalar_type_c'' else ''scalar_type'')
                    = Some (PStr ''double'')
                \<and> builder_init example_interface None
                      (tsfc_integral_data.integral_type mass_integral_data) (PStr ''double'')
                      True mass_integral_data = Inr (True, 0)
                \<and> builder_set_arguments example_interface ?st
                    = (case set_arguments example_library True ?cfg of
                         Inl e \<Rightarrow> Inl e
                       | Inr u \<Rightarrow> Inr ?st) \<longrightarrow>
              compile_integral example_environment mass_integral_data mass_form_data ''form''
                double_parameters (Some example_interface) True True initial_world
                = Inl UnsupportedArgumentShapeError"
    by blast
  from s s' have ne: "s' \<noteq> t'" by simp
  with sa have f: "set_arguments example_library True ?cfg = Inl UnsupportedArgumentShapeError"
    by simp
  from link ne lib nm n p i reg
  have run: "compile_integral example_environment mass_integral_data mass_form_data ''form''
                double_parameters (Some example_interface) True True initial_world
                = Inl UnsupportedArgumentShapeError"
    by blast
  from r t s f run show ?thesis by blast
qed

section \<open>Kernels and their names\<close>



































section \<open>The dummy-index reconciler\<close>

text \<open>
  What the driver itself does in \<^verbatim>\<open>replace_argument_multiindices_dummy\<close>. When the dummy
  and the true multiindices are the same objects the expressions come back as they are;
  otherwise GEM's replacement is applied to each expression, in order, with the
  substitution that pairs the dummy indices with the true ones by position.
\<close>

lemma reconciler_identical:
  "argument_multiindices_dummy (fem_config cfg) = argument_multiindices (fem_config cfg) \<Longrightarrow>
   replace_argument_multiindices_dummy mapper expressions cfg = expressions"
  by (simp add: replace_argument_multiindices_dummy_def)

lemma reconciler_substitution:
  "argument_multiindices_dummy (fem_config cfg) \<noteq> argument_multiindices (fem_config cfg) \<Longrightarrow>
   replace_argument_multiindices_dummy mapper expressions cfg
     = map (\<lambda>expr. mapper expr
              (zip (concat (argument_multiindices_dummy (fem_config cfg)))
                   (concat (argument_multiindices (fem_config cfg)))))
         expressions"
  by (simp add: replace_argument_multiindices_dummy_def Let_def)

lemma reconciler_pairs_by_position:
  assumes "create_kernel_config lib kname fd idata ps False n = Inr (cfg, n')"
  shows "length (concat (argument_multiindices_dummy (fem_config cfg)))
           = length (concat (argument_multiindices (fem_config cfg)))
         \<and> map extent (map fst (zip (concat (argument_multiindices_dummy (fem_config cfg)))
                                    (concat (argument_multiindices (fem_config cfg)))))
           = map extent (map snd (zip (concat (argument_multiindices_dummy (fem_config cfg)))
                                      (concat (argument_multiindices (fem_config cfg)))))"
proof -
  from create_kernel_config_indices [OF assms] obtain mis n1 where
    d: "dummy_indices mis n1 = (argument_multiindices_dummy (fem_config cfg), n')"
    and t: "argument_multiindices (fem_config cfg) = mis"
    by auto
  from dummy_indices_spec [OF d] t
  have "shapes (argument_multiindices_dummy (fem_config cfg))
          = shapes (argument_multiindices (fem_config cfg))"
    by simp
  then have e: "map extent (concat (argument_multiindices_dummy (fem_config cfg)))
          = map extent (concat (argument_multiindices (fem_config cfg)))"
    by (simp add: shapes_def map_concat)
  then have l: "length (concat (argument_multiindices_dummy (fem_config cfg)))
          = length (concat (argument_multiindices (fem_config cfg)))"
    by (rule map_eq_imp_length_eq)
  with e show ?thesis by simp
qed

end
